theory Spec2Isabelle
  imports Complex_Main
begin

section \<open>JavaScript numbers\<close>

text \<open>
  Every numeric value of the library is a JavaScript \<open>number\<close>, a binary64 floating-point
  number. The model keeps the three special values of that type and takes a finite one as
  the real that it denotes; the sign of zero is not modelled. The operations \<open>js_add\<close>,
  \<open>js_sub\<close>, \<open>js_mul\<close> and \<open>js_div\<close> give the exact result on finite numbers;
  quantisation, interpolation and the sampling of a tile are modelled with them. The
  operations \<open>fl_add\<close>, \<open>fl_sub\<close>, \<open>fl_mul\<close> and \<open>fl_div\<close> round the exact result to the
  nearest binary64 number, an infinity when it is beyond the largest one; the calculator
  of the interpolation parameters, which takes floors of quotients, is modelled with
  them. A read of \<open>undefined\<close> that is only ever used in arithmetic is modelled by the
  \<open>NaN\<close> it converts to.
\<close>

datatype jsnum = NaN | NegInf | Fin real | PosInf

text \<open>The infinity with the sign of a finite factor; \<open>NaN\<close> for the factor zero.\<close>

definition inf_signed :: "real \<Rightarrow> jsnum" where
  "inf_signed s = (if s = 0 then NaN else if 0 < s then PosInf else NegInf)"

fun js_neg :: "jsnum \<Rightarrow> jsnum" where
  "js_neg NaN = NaN"
| "js_neg NegInf = PosInf"
| "js_neg PosInf = NegInf"
| "js_neg (Fin a) = Fin (- a)"

fun js_add :: "jsnum \<Rightarrow> jsnum \<Rightarrow> jsnum" where
  "js_add NaN _ = NaN"
| "js_add _ NaN = NaN"
| "js_add (Fin a) (Fin b) = Fin (a + b)"
| "js_add PosInf NegInf = NaN"
| "js_add NegInf PosInf = NaN"
| "js_add PosInf _ = PosInf"
| "js_add NegInf _ = NegInf"
| "js_add (Fin a) PosInf = PosInf"
| "js_add (Fin a) NegInf = NegInf"

definition js_sub :: "jsnum \<Rightarrow> jsnum \<Rightarrow> jsnum" where
  "js_sub a b = js_add a (js_neg b)"

fun js_mul :: "jsnum \<Rightarrow> jsnum \<Rightarrow> jsnum" where
  "js_mul NaN _ = NaN"
| "js_mul _ NaN = NaN"
| "js_mul (Fin a) (Fin b) = Fin (a * b)"
| "js_mul (Fin a) PosInf = inf_signed a"
| "js_mul (Fin a) NegInf = inf_signed (- a)"
| "js_mul PosInf (Fin b) = inf_signed b"
| "js_mul NegInf (Fin b) = inf_signed (- b)"
| "js_mul PosInf PosInf = PosInf"
| "js_mul NegInf NegInf = PosInf"
| "js_mul PosInf NegInf = NegInf"
| "js_mul NegInf PosInf = NegInf"

fun js_div :: "jsnum \<Rightarrow> jsnum \<Rightarrow> jsnum" where
  "js_div NaN _ = NaN"
| "js_div _ NaN = NaN"
| "js_div (Fin a) (Fin b) = (if b = 0 then inf_signed a else Fin (a / b))"
| "js_div (Fin a) _ = Fin 0"
| "js_div PosInf (Fin b) = (if 0 \<le> b then PosInf else NegInf)"
| "js_div NegInf (Fin b) = (if 0 \<le> b then NegInf else PosInf)"
| "js_div _ _ = NaN"

fun js_lt :: "jsnum \<Rightarrow> jsnum \<Rightarrow> bool" where
  "js_lt NaN _ = False"
| "js_lt _ NaN = False"
| "js_lt (Fin a) (Fin b) = (a < b)"
| "js_lt NegInf NegInf = False"
| "js_lt NegInf _ = True"
| "js_lt PosInf _ = False"
| "js_lt (Fin a) PosInf = True"
| "js_lt (Fin a) NegInf = False"

fun js_le :: "jsnum \<Rightarrow> jsnum \<Rightarrow> bool" where
  "js_le NaN _ = False"
| "js_le _ NaN = False"
| "js_le (Fin a) (Fin b) = (a \<le> b)"
| "js_le NegInf _ = True"
| "js_le _ PosInf = True"
| "js_le _ _ = False"

definition js_ge :: "jsnum \<Rightarrow> jsnum \<Rightarrow> bool" where
  "js_ge a b = js_le b a"

fun isNaN :: "jsnum \<Rightarrow> bool" where
  "isNaN NaN = True"
| "isNaN _ = False"

text \<open>Truthiness of a number, and \<open>a || b\<close> on numbers.\<close>

fun js_truthy :: "jsnum \<Rightarrow> bool" where
  "js_truthy NaN = False"
| "js_truthy (Fin a) = (a \<noteq> 0)"
| "js_truthy _ = True"

definition js_or :: "jsnum \<Rightarrow> jsnum \<Rightarrow> jsnum" where
  "js_or a b = (if js_truthy a then a else b)"

fun Math_abs :: "jsnum \<Rightarrow> jsnum" where
  "Math_abs NaN = NaN"
| "Math_abs (Fin a) = Fin \<bar>a\<bar>"
| "Math_abs _ = PosInf"

fun Math_floor :: "jsnum \<Rightarrow> jsnum" where
  "Math_floor (Fin a) = Fin (of_int \<lfloor>a\<rfloor>)"
| "Math_floor x = x"

fun Math_ceil :: "jsnum \<Rightarrow> jsnum" where
  "Math_ceil (Fin a) = Fin (of_int \<lceil>a\<rceil>)"
| "Math_ceil x = x"

fun Math_round :: "jsnum \<Rightarrow> jsnum" where
  "Math_round (Fin a) = Fin (of_int \<lfloor>a + 1 / 2\<rfloor>)"
| "Math_round x = x"

definition Math_max :: "jsnum \<Rightarrow> jsnum \<Rightarrow> jsnum" where
  "Math_max a b = (if isNaN a \<or> isNaN b then NaN else if js_le a b then b else a)"

definition Math_min :: "jsnum \<Rightarrow> jsnum \<Rightarrow> jsnum" where
  "Math_min a b = (if isNaN a \<or> isNaN b then NaN else if js_le a b then a else b)"

text \<open>\<open>Math.hypot\<close>: an infinite argument wins over \<open>NaN\<close>.\<close>

fun Math_hypot :: "jsnum \<Rightarrow> jsnum \<Rightarrow> jsnum" where
  "Math_hypot (Fin a) (Fin b) = Fin (sqrt (a * a + b * b))"
| "Math_hypot PosInf _ = PosInf"
| "Math_hypot NegInf _ = PosInf"
| "Math_hypot (Fin a) PosInf = PosInf"
| "Math_hypot (Fin a) NegInf = PosInf"
| "Math_hypot NaN PosInf = PosInf"
| "Math_hypot NaN NegInf = PosInf"
| "Math_hypot NaN NaN = NaN"
| "Math_hypot NaN (Fin b) = NaN"
| "Math_hypot (Fin a) NaN = NaN"

text \<open>\<open>Math.atan2 y x\<close>, the angle of the point \<open>(x, y)\<close> in \<open>(-pi, pi]\<close>.\<close>

definition atan2_real :: "real \<Rightarrow> real \<Rightarrow> real" where
  "atan2_real y x =
     (if 0 < x then arctan (y / x)
      else if x < 0 then (if 0 \<le> y then arctan (y / x) + pi else arctan (y / x) - pi)
      else if 0 < y then pi / 2
      else if y < 0 then - (pi / 2)
      else 0)"

fun Math_atan2 :: "jsnum \<Rightarrow> jsnum \<Rightarrow> jsnum" where
  "Math_atan2 NaN _ = NaN"
| "Math_atan2 _ NaN = NaN"
| "Math_atan2 (Fin y) (Fin x) = Fin (atan2_real y x)"
| "Math_atan2 (Fin y) PosInf = Fin 0"
| "Math_atan2 (Fin y) NegInf = Fin (if 0 \<le> y then pi else - pi)"
| "Math_atan2 PosInf (Fin x) = Fin (pi / 2)"
| "Math_atan2 NegInf (Fin x) = Fin (- (pi / 2))"
| "Math_atan2 PosInf PosInf = Fin (pi / 4)"
| "Math_atan2 NegInf PosInf = Fin (- (pi / 4))"
| "Math_atan2 PosInf NegInf = Fin (3 * pi / 4)"
| "Math_atan2 NegInf NegInf = Fin (- (3 * pi / 4))"

subsection \<open>Rounding to binary64\<close>

text \<open>Rounding to the nearest integer, a tie going to the even one.\<close>

definition rne :: "real \<Rightarrow> int" where
  "rne x = (let f = \<lfloor>x\<rfloor>; d = x - of_int f
            in if d < 1 / 2 then f
               else if 1 / 2 < d then f + 1
               else if even f then f else f + 1)"

text \<open>
  The exponent of the binade of a non-zero real, not below that of the subnormal numbers,
  and the binary64 number nearest to a real: the multiple of \<open>2 ^ (exponent - 52)\<close> nearest
  to it, a tie going to the even multiple, or an infinity when that multiple is beyond
  the largest binary64 number.
\<close>

definition expo :: "real \<Rightarrow> int" where
  "expo x = max (- 1022) \<lfloor>log 2 \<bar>x\<bar>\<rfloor>"

definition fl64 :: "real \<Rightarrow> jsnum" where
  "fl64 x =
     (if x = 0 then Fin 0
      else let q = 2 powi (expo x - 52);
               r = of_int (rne (x / q)) * q
           in if 2 powi 1024 \<le> r then PosInf
              else if r \<le> - (2 powi 1024) then NegInf
              else Fin r)"

text \<open>The four arithmetic operators of the language: the exact result, rounded.\<close>

fun fl :: "jsnum \<Rightarrow> jsnum" where
  "fl (Fin x) = fl64 x"
| "fl x = x"

definition fl_add :: "jsnum \<Rightarrow> jsnum \<Rightarrow> jsnum" where
  "fl_add a b = fl (js_add a b)"

definition fl_sub :: "jsnum \<Rightarrow> jsnum \<Rightarrow> jsnum" where
  "fl_sub a b = fl (js_sub a b)"

definition fl_mul :: "jsnum \<Rightarrow> jsnum \<Rightarrow> jsnum" where
  "fl_mul a b = fl (js_mul a b)"

definition fl_div :: "jsnum \<Rightarrow> jsnum \<Rightarrow> jsnum" where
  "fl_div a b = fl (js_div a b)"

section \<open>lib/utils\<close>

text \<open>
  A typed array holding one channel. The sources declare \<open>Uint8Array\<close> and the README
  also admits \<open>Float32Array\<close>, so an element is a number and may be \<open>NaN\<close>. Reading an
  array at an index that is not an integer inside it gives \<open>undefined\<close>; every such read
  of the library feeds arithmetic, which turns it into \<open>NaN\<close>.
\<close>

type_synonym grid = "jsnum list"

fun js_index :: "grid \<Rightarrow> jsnum \<Rightarrow> jsnum" where
  "js_index g (Fin r) =
     (if r = of_int \<lfloor>r\<rfloor> \<and> 0 \<le> r \<and> nat \<lfloor>r\<rfloor> < length g then g ! nat \<lfloor>r\<rfloor> else NaN)"
| "js_index g _ = NaN"

record InterpolationParams =
  i11 :: jsnum
  i12 :: jsnum
  i21 :: jsnum
  i22 :: jsnum
  rx :: jsnum
  ry :: jsnum

definition interpolateGridValue :: "grid \<Rightarrow> InterpolationParams \<Rightarrow> jsnum" where
  "interpolateGridValue g params =
     (let q11 = js_index g (i11 params);
          q21 = js_index g (i21 params);
          q12 = js_index g (i12 params);
          q22 = js_index g (i22 params);
          r1 = js_add (js_mul (js_sub (Fin 1) (rx params)) q11) (js_mul (rx params) q21);
          r2 = js_add (js_mul (js_sub (Fin 1) (rx params)) q12) (js_mul (rx params) q22)
      in js_add (js_mul (js_sub (Fin 1) (ry params)) r1) (js_mul (ry params) r2))"

type_synonym range = "jsnum \<times> jsnum"

definition quantize :: "jsnum \<Rightarrow> range \<Rightarrow> jsnum" where
  "quantize v r = js_div (js_mul (js_sub v (fst r)) (Fin 255)) (js_sub (snd r) (fst r))"

definition dequantize :: "jsnum \<Rightarrow> range \<Rightarrow> jsnum" where
  "dequantize byte r = js_add (js_div (js_mul byte (js_sub (snd r) (fst r))) (Fin 255)) (fst r)"

definition clamp :: "jsnum \<Rightarrow> jsnum \<Rightarrow> jsnum \<Rightarrow> jsnum" where
  "clamp v lo hi = Math_max lo (Math_min hi v)"

section \<open>lib/factories\<close>

type_synonym Extent = "jsnum \<times> jsnum \<times> jsnum \<times> jsnum"

definition createCheckExtentFunc :: "Extent \<Rightarrow> jsnum \<Rightarrow> jsnum \<Rightarrow> bool" where
  "createCheckExtentFunc extent lon lat =
     (case extent of (minX, minY, maxX, maxY) \<Rightarrow>
        let crossesDateLine = js_lt maxX minX
        in if crossesDateLine
           then js_ge lat minY \<and> js_le lat maxY \<and> (js_ge lon minX \<or> js_le lon maxX)
           else js_ge lon minX \<and> js_le lon maxX \<and> js_ge lat minY \<and> js_le lat maxY)"

text \<open>
  The calculator. Its sums, differences, products and quotients are the rounded ones;
  comparisons, \<open>Math.abs\<close>, \<open>Math.floor\<close>, \<open>Math.ceil\<close> and \<open>clamp\<close> are exact on binary64
  numbers. It takes an optional scratch record; when one is given, its six fields are
  overwritten and it is returned, otherwise a fresh record is returned.
\<close>

definition createCoordinateCalculator ::
  "jsnum \<Rightarrow> jsnum \<Rightarrow> Extent \<Rightarrow> jsnum \<Rightarrow> jsnum \<Rightarrow> InterpolationParams option
     \<Rightarrow> InterpolationParams" where
  "createCoordinateCalculator width height extent lon lat out =
     (case extent of (e0, e1, e2, e3) \<Rightarrow>
      let dx = (if js_lt e2 e0
                then fl_add (fl_sub (Fin 180) e0) (fl_add (Fin 180) e2)
                else Math_abs (fl_sub e2 e0));
          dy = Math_abs (fl_sub e3 e1);
          partX = js_or (fl_div dx width) (Fin 1);
          partY = js_or (fl_div dy height) (Fin 1);
          maxX = fl_sub width (Fin 1);
          maxY = fl_sub height (Fin 1);
          x = (if js_lt e2 e0 \<and> js_le lon e2 then fl_add lon (Fin 360) else lon);
          xCell = fl_div (fl_sub x e0) partX;
          yCell = fl_div (fl_sub lat e1) partY;
          xBase = Math_floor xCell;
          yBaseFloor = Math_floor yCell;
          yBaseCeil = Math_ceil yCell;
          x0 = clamp xBase (Fin 0) maxX;
          x1 = clamp (fl_add xBase (Fin 1)) (Fin 0) maxX;
          y0 = clamp (fl_sub (fl_sub height (Fin 1)) yBaseCeil) (Fin 0) maxY;
          y1 = clamp (fl_sub (fl_sub height (Fin 1)) yBaseFloor) (Fin 0) maxY;
          n11 = fl_add x0 (fl_mul y1 width);
          n12 = fl_add x0 (fl_mul y0 width);
          n21 = fl_add x1 (fl_mul y1 width);
          n22 = fl_add x1 (fl_mul y0 width);
          fx = fl_sub xCell xBase;
          fy = fl_sub yCell yBaseFloor
      in (case out of
            Some scratch \<Rightarrow>
              scratch\<lparr>i11 := n11, i12 := n12, i21 := n21, i22 := n22, rx := fx, ry := fy\<rparr>
          | None \<Rightarrow> \<lparr>i11 = n11, i12 = n12, i21 = n21, i22 = n22, rx = fx, ry = fy\<rparr>))"

text \<open>
  The two cell coordinates that the calculator computes on its way: the values of
  \<open>xCell\<close> and \<open>yCell\<close>.
\<close>

definition cellCoordinates :: "jsnum \<Rightarrow> jsnum \<Rightarrow> Extent \<Rightarrow> jsnum \<Rightarrow> jsnum \<Rightarrow> jsnum \<times> jsnum" where
  "cellCoordinates width height extent lon lat =
     (case extent of (e0, e1, e2, e3) \<Rightarrow>
      let dx = (if js_lt e2 e0
                then fl_add (fl_sub (Fin 180) e0) (fl_add (Fin 180) e2)
                else Math_abs (fl_sub e2 e0));
          dy = Math_abs (fl_sub e3 e1);
          partX = js_or (fl_div dx width) (Fin 1);
          partY = js_or (fl_div dy height) (Fin 1);
          x = (if js_lt e2 e0 \<and> js_le lon e2 then fl_add lon (Fin 360) else lon);
          xCell = fl_div (fl_sub x e0) partX;
          yCell = fl_div (fl_sub lat e1) partY
      in (xCell, yCell))"

text \<open>
  \<open>createTransformFunc\<close>: projections are given by their codes; the two reprojection
  functions of the host library are parameters.
\<close>

record ol_proj =
  toLonLat :: "jsnum \<times> jsnum \<Rightarrow> string \<Rightarrow> jsnum \<times> jsnum"
  transform_ol :: "jsnum \<times> jsnum \<Rightarrow> string \<Rightarrow> string \<Rightarrow> jsnum \<times> jsnum"

definition createTransformFunc ::
  "ol_proj \<Rightarrow> string \<Rightarrow> string \<Rightarrow> jsnum \<Rightarrow> jsnum \<Rightarrow> jsnum \<times> jsnum" where
  "createTransformFunc ol sourceProjection dataProjection x y =
     (if sourceProjection = dataProjection then (x, y)
      else if dataProjection = ''EPSG:4326'' then toLonLat ol (x, y) sourceProjection
      else transform_ol ol (x, y) sourceProjection dataProjection)"

section \<open>sources/BaseGridSource\<close>

datatype js_error = TypeError

datatype TileSize = Square jsnum | Rect jsnum jsnum

record TileGrid =
  getOrigin :: "jsnum \<Rightarrow> jsnum \<times> jsnum"
  getResolution :: "jsnum \<Rightarrow> jsnum"

record ('d, 'e) BaseGridOptions =
  opt_data :: 'd
  opt_extremes :: 'e
  opt_dataWidth :: jsnum
  opt_dataHeight :: jsnum
  opt_dataExtent :: Extent
  opt_spacingFactor :: "jsnum option"
  opt_tileSize :: "TileSize option"
  opt_projection :: "string option"
  opt_dataProjection :: "string option"
  opt_tileGrid :: TileGrid

record ('d, 'e) BaseGridSource =
  data :: 'd
  extremes :: 'e
  dataWidth :: jsnum
  dataHeight :: jsnum
  dataExtent :: Extent
  transform :: "jsnum \<Rightarrow> jsnum \<Rightarrow> jsnum \<times> jsnum"
  tileGrid :: TileGrid
  tileW :: jsnum
  tileH :: jsnum
  gridStepX :: jsnum
  gridStepY :: jsnum
  halfStepX :: jsnum
  halfStepY :: jsnum
  interpolationParam :: InterpolationParams

text \<open>The divisor chosen by the constructor: \<open>divisors[divisorIdx]\<close>.\<close>

definition select_divisor :: "jsnum list \<Rightarrow> jsnum option \<Rightarrow> jsnum" where
  "select_divisor divisors spacingFactor =
     (let divisorIdx =
            Math_max (Fin 0)
              (Math_min (Fin (real (length divisors) - 1))
                 (js_sub (case spacingFactor of None \<Rightarrow> Fin 1 | Some f \<Rightarrow> f) (Fin 1)))
      in js_index divisors divisorIdx)"

definition gridStep :: "jsnum \<Rightarrow> jsnum \<Rightarrow> jsnum" where
  "gridStep tile divisor = Math_round (js_div tile divisor)"

definition default_divisors :: "jsnum list" where
  "default_divisors = [Fin 16, Fin 8, Fin 4, Fin 2, Fin 1]"

definition BaseGridSource_new ::
  "ol_proj \<Rightarrow> ('d, 'e) BaseGridOptions \<Rightarrow> jsnum list \<Rightarrow> ('d, 'e) BaseGridSource" where
  "BaseGridSource_new ol options divisors =
     (let projection = (case opt_projection options of None \<Rightarrow> ''EPSG:3857'' | Some c \<Rightarrow> c);
          dataProjection =
            (case opt_dataProjection options of None \<Rightarrow> ''EPSG:4326'' | Some c \<Rightarrow> c);
          tileSize = (case opt_tileSize options of None \<Rightarrow> Square (Fin 256) | Some t \<Rightarrow> t);
          tW = (case tileSize of Square t \<Rightarrow> t | Rect a b \<Rightarrow> a);
          tH = (case tileSize of Square t \<Rightarrow> t | Rect a b \<Rightarrow> b);
          divisor = select_divisor divisors (opt_spacingFactor options);
          stepX = gridStep tW divisor;
          stepY = gridStep tH divisor
      in \<lparr> data = opt_data options,
           extremes = opt_extremes options,
           dataWidth = opt_dataWidth options,
           dataHeight = opt_dataHeight options,
           dataExtent = opt_dataExtent options,
           transform = createTransformFunc ol projection dataProjection,
           tileGrid = opt_tileGrid options,
           tileW = tW,
           tileH = tH,
           gridStepX = stepX,
           gridStepY = stepY,
           halfStepX = js_div stepX (Fin 2),
           halfStepY = js_div stepY (Fin 2),
           interpolationParam =
             \<lparr>i11 = Fin 0, i12 = Fin 0, i21 = Fin 0, i22 = Fin 0, rx = Fin 0, ry = Fin 0\<rparr> \<rparr>)"

text \<open>
  The loop head \<open>for (let i = 0; i < bound; i += step)\<close> of the three \<open>loadTile\<close>
  methods: the values \<open>i\<close> takes, from a given start. The loop does not end when the step
  is not positive; then the function has no value.
\<close>

partial_function (option) loop_offsets :: "jsnum \<Rightarrow> jsnum \<Rightarrow> jsnum \<Rightarrow> jsnum list option" where
  "loop_offsets i bound step =
     (if js_lt i bound
      then Option.bind (loop_offsets (js_add i step) bound step) (\<lambda>rest. Some (i # rest))
      else Some [])"

text \<open>
  The sample points of one tile: the pixel offsets \<open>(i, j)\<close> at which the loop nest of
  \<open>loadTile\<close> runs its body, in order. The inner loop starts only if the outer one has
  an iteration.
\<close>

definition loadTile_samplePoints ::
  "jsnum \<Rightarrow> jsnum \<Rightarrow> jsnum \<Rightarrow> jsnum \<Rightarrow> (jsnum \<times> jsnum) list option" where
  "loadTile_samplePoints tW tH stepX stepY =
     (case loop_offsets (Fin 0) tW stepX of
        None \<Rightarrow> None
      | Some cols \<Rightarrow>
          if cols = [] then Some []
          else (case loop_offsets (Fin 0) tH stepY of
                  None \<Rightarrow> None
                | Some rows \<Rightarrow> Some (concat (map (\<lambda>i. map (\<lambda>j. (i, j)) rows) cols))))"

text \<open>
  The map coordinate of the sample at pixel offset \<open>(i, j)\<close> of tile \<open>(z, x, y)\<close>, in the
  data projection: the bounding box of the tile, the pixel steps, and the transform.
\<close>

definition loadTile_point ::
  "('d, 'e, 'm) BaseGridSource_scheme \<Rightarrow> jsnum \<Rightarrow> jsnum \<Rightarrow> jsnum \<Rightarrow> jsnum \<times> jsnum
     \<Rightarrow> jsnum \<times> jsnum" where
  "loadTile_point src z x y ij =
     (let origin = getOrigin (tileGrid src) z;
          resolution = getResolution (tileGrid src) z;
          bbox0 = js_add (fst origin) (js_mul (js_mul (tileW src) resolution) x);
          bbox1 = js_add (snd origin)
                    (js_mul (js_mul (tileH src) resolution) (js_sub (js_neg y) (Fin 1)));
          bbox2 = js_add (fst origin) (js_mul (js_mul (tileW src) resolution) (js_add x (Fin 1)));
          bbox3 = js_add (snd origin) (js_mul (js_mul (tileH src) resolution) (js_neg y));
          stepWidth = js_div (js_sub bbox2 bbox0) (tileW src);
          stepHeight = js_div (js_sub bbox3 bbox1) (tileH src)
      in transform src
           (js_add bbox0 (js_mul stepWidth (js_add (fst ij) (halfStepX src))))
           (js_sub bbox3 (js_mul stepHeight (js_add (snd ij) (halfStepY src)))))"

text \<open>
  The fields \<open>checkExtent\<close> and \<open>coordinateCalculator\<close>, which the constructor builds from
  the extent and the size of the grid. The renderers pass the scratch record
  \<open>interpolationParam\<close> of the source to the calculator, which overwrites all six fields
  before any of them is read again; the model therefore does not hand the overwritten
  source on to the next sample.
\<close>

definition checkExtent :: "('d, 'e, 'm) BaseGridSource_scheme \<Rightarrow> jsnum \<Rightarrow> jsnum \<Rightarrow> bool" where
  "checkExtent src = createCheckExtentFunc (dataExtent src)"

definition coordinateCalculator ::
  "('d, 'e, 'm) BaseGridSource_scheme \<Rightarrow> jsnum \<Rightarrow> jsnum \<Rightarrow> InterpolationParams option
     \<Rightarrow> InterpolationParams" where
  "coordinateCalculator src =
     createCoordinateCalculator (dataWidth src) (dataHeight src) (dataExtent src)"

text \<open>What the body of the loop nest does at one sample point.\<close>

datatype 'a sample = Skipped | Emitted 'a

section \<open>sources/ColorGrid\<close>

type_synonym ColorGrid = "(grid, range option) BaseGridSource"

definition ColorGrid_divisors :: "jsnum list" where
  "ColorGrid_divisors = [Fin 256, Fin 128, Fin 64, Fin 32, Fin 16]"

definition ColorGrid_new :: "ol_proj \<Rightarrow> (grid, range option) BaseGridOptions \<Rightarrow> ColorGrid" where
  "ColorGrid_new ol options =
     BaseGridSource_new ol
       (options\<lparr>opt_spacingFactor :=
          Some (case opt_spacingFactor options of None \<Rightarrow> Fin 2 | Some f \<Rightarrow> f)\<rparr>)
       ColorGrid_divisors"

text \<open>
  The body of \<open>ColorGrid.loadTile\<close> at a sample whose coordinate in the data projection is
  \<open>point\<close> (for the sample at pixel offset \<open>(i, j)\<close>, the value of \<open>loadTile_point\<close>): the
  grey value written into the pixel block of the sample, or nothing.
\<close>

definition ColorGrid_sample :: "ColorGrid \<Rightarrow> jsnum \<times> jsnum \<Rightarrow> jsnum sample" where
  "ColorGrid_sample src point =
     (if \<not> checkExtent src (fst point) (snd point) then Skipped
      else
        let params = coordinateCalculator src (fst point) (snd point) (Some (interpolationParam src));
            raw = interpolateGridValue (data src) params
        in if isNaN raw then Skipped else Emitted (Math_round raw))"

definition ColorGrid_getDataAtCoordinate :: "ColorGrid \<Rightarrow> jsnum \<times> jsnum \<Rightarrow> jsnum option" where
  "ColorGrid_getDataAtCoordinate src coordinate =
     (let lonlat = transform src (fst coordinate) (snd coordinate);
          params = coordinateCalculator src (fst lonlat) (snd lonlat) (Some (interpolationParam src));
          raw = interpolateGridValue (data src) params
      in if isNaN raw then None
         else Some (case extremes src of Some r \<Rightarrow> dequantize raw r | None \<Rightarrow> raw))"

section \<open>sources/ArrowGrid\<close>

record ArrowData =
  u :: jsnum
  v :: jsnum
  speed :: jsnum
  angle :: jsnum

record ArrowGrid = "(grid \<times> grid, range option) BaseGridSource" +
  speedThreshold :: jsnum

definition ArrowGrid_divisors :: "jsnum list" where
  "ArrowGrid_divisors = [Fin 16, Fin 8, Fin 4, Fin 2, Fin 1]"

definition ArrowGrid_new ::
  "ol_proj \<Rightarrow> (grid \<times> grid, range option) BaseGridOptions \<Rightarrow> jsnum option \<Rightarrow> ArrowGrid" where
  "ArrowGrid_new ol options opt_speedThreshold =
     BaseGridSource.extend
       (BaseGridSource_new ol
          (options\<lparr>opt_spacingFactor :=
             Some (case opt_spacingFactor options of None \<Rightarrow> Fin 3 | Some f \<Rightarrow> f)\<rparr>)
          ArrowGrid_divisors)
       (ArrowGrid.fields
          (case opt_speedThreshold of None \<Rightarrow> Fin 0 | Some t \<Rightarrow> js_or t (Fin 0)))"

text \<open>
  \<open>dequantize\<close> on the \<open>extremes\<close> of a source that may have none: reading
  \<open>range[1]\<close> of \<open>undefined\<close> throws.
\<close>

definition dequantize_opt :: "jsnum \<Rightarrow> range option \<Rightarrow> js_error + jsnum" where
  "dequantize_opt byte r = (case r of None \<Rightarrow> Inl TypeError | Some q \<Rightarrow> Inr (dequantize byte q))"

text \<open>
  The part of the body of \<open>ArrowGrid.loadTile\<close> that follows dequantisation: the arrow
  drawn for the components \<open>(u, v)\<close>, rotated by its \<open>angle\<close>, or nothing.
\<close>

definition ArrowGrid_arrow :: "jsnum \<Rightarrow> jsnum \<Rightarrow> jsnum \<Rightarrow> ArrowData sample" where
  "ArrowGrid_arrow threshold uu vv =
     (let sp = Math_hypot uu vv
      in if js_lt sp threshold then Skipped
         else Emitted \<lparr>u = uu, v = vv, speed = sp, angle = Math_atan2 (js_neg vv) uu\<rparr>)"

definition ArrowGrid_sample :: "ArrowGrid \<Rightarrow> jsnum \<times> jsnum \<Rightarrow> js_error + ArrowData sample" where
  "ArrowGrid_sample src point =
     (if \<not> checkExtent src (fst point) (snd point) then Inr Skipped
      else
        let params = coordinateCalculator src (fst point) (snd point) (Some (interpolationParam src));
            uRaw = interpolateGridValue (fst (data src)) params;
            vRaw = interpolateGridValue (snd (data src)) params
        in if isNaN uRaw \<or> isNaN vRaw then Inr Skipped
           else (case dequantize_opt uRaw (extremes src) of
                   Inl e \<Rightarrow> Inl e
                 | Inr uu \<Rightarrow>
                     (case dequantize_opt vRaw (extremes src) of
                        Inl e \<Rightarrow> Inl e
                      | Inr vv \<Rightarrow> Inr (ArrowGrid_arrow (speedThreshold src) uu vv))))"

definition ArrowGrid_getVectorAtCoordinate ::
  "ArrowGrid \<Rightarrow> jsnum \<times> jsnum \<Rightarrow> js_error + ArrowData option" where
  "ArrowGrid_getVectorAtCoordinate src coordinate =
     (let lonlat = transform src (fst coordinate) (snd coordinate);
          params = coordinateCalculator src (fst lonlat) (snd lonlat) (Some (interpolationParam src));
          uRaw = interpolateGridValue (fst (data src)) params;
          vRaw = interpolateGridValue (snd (data src)) params
      in if isNaN uRaw \<or> isNaN vRaw then Inr None
         else (case dequantize_opt uRaw (extremes src) of
                 Inl e \<Rightarrow> Inl e
               | Inr uu \<Rightarrow>
                   (case dequantize_opt vRaw (extremes src) of
                      Inl e \<Rightarrow> Inl e
                    | Inr vv \<Rightarrow>
                        Inr (Some \<lparr>u = uu, v = vv, speed = Math_hypot uu vv,
                                   angle = Math_atan2 (js_neg vv) uu\<rparr>))))"

section \<open>sources/LabelGrid\<close>

datatype LabelExtremes = SingleRange range | MultiRange "range list"

record LabelGrid = "(grid list, LabelExtremes) BaseGridSource" +
  textFormatter :: "jsnum list \<Rightarrow> string option"

definition LabelGrid_divisors :: "jsnum list" where
  "LabelGrid_divisors = [Fin 16, Fin 8, Fin 4, Fin 2, Fin 1]"

definition LabelGrid_new ::
  "ol_proj \<Rightarrow> (grid list, LabelExtremes) BaseGridOptions \<Rightarrow> (jsnum list \<Rightarrow> string option)
     \<Rightarrow> LabelGrid" where
  "LabelGrid_new ol options text =
     BaseGridSource.extend
       (BaseGridSource_new ol
          (options\<lparr>opt_spacingFactor :=
             Some (case opt_spacingFactor options of None \<Rightarrow> Fin 4 | Some f \<Rightarrow> f)\<rparr>)
          LabelGrid_divisors)
       (LabelGrid.fields text)"

text \<open>
  Dequantising channel \<open>k\<close>. With one shared pair the pair is used. A list of pairs is
  recognised by its first entry being an array: channel \<open>k\<close> uses entry \<open>k\<close>, and
  \<open>dequantize\<close> throws when there is none; an empty list is taken for a pair with both
  ends \<open>undefined\<close>, which dequantises to \<open>NaN\<close>.
\<close>

fun LabelGrid_dequantize :: "LabelExtremes \<Rightarrow> nat \<Rightarrow> jsnum \<Rightarrow> js_error + jsnum" where
  "LabelGrid_dequantize (SingleRange r) k raw = Inr (dequantize raw r)"
| "LabelGrid_dequantize (MultiRange []) k raw = Inr NaN"
| "LabelGrid_dequantize (MultiRange rs) k raw =
     (if k < length rs then Inr (dequantize raw (rs ! k)) else Inl TypeError)"

text \<open>
  The channel loop of \<open>LabelGrid.loadTile\<close>, from channel \<open>k\<close> on: the values of the
  channels, or \<open>None\<close> when a channel has no data (\<open>hasNoData\<close>).
\<close>

fun LabelGrid_values ::
  "LabelExtremes \<Rightarrow> InterpolationParams \<Rightarrow> nat \<Rightarrow> grid list \<Rightarrow> js_error + jsnum list option" where
  "LabelGrid_values ext params k [] = Inr (Some [])"
| "LabelGrid_values ext params k (g # gs) =
     (let raw = interpolateGridValue g params
      in if isNaN raw then Inr None
         else (case LabelGrid_dequantize ext k raw of
                 Inl e \<Rightarrow> Inl e
               | Inr val \<Rightarrow>
                   (case LabelGrid_values ext params (Suc k) gs of
                      Inl e \<Rightarrow> Inl e
                    | Inr None \<Rightarrow> Inr None
                    | Inr (Some vals) \<Rightarrow> Inr (Some (val # vals)))))"

text \<open>
  The body of \<open>LabelGrid.loadTile\<close>: the label drawn at the sample with the values it was
  formatted from, or nothing. A label that is \<open>null\<close>, \<open>undefined\<close> or empty is not drawn.
\<close>

definition LabelGrid_sample ::
  "LabelGrid \<Rightarrow> jsnum \<times> jsnum \<Rightarrow> js_error + (string \<times> jsnum list) sample" where
  "LabelGrid_sample src point =
     (if \<not> checkExtent src (fst point) (snd point) then Inr Skipped
      else
        let params = coordinateCalculator src (fst point) (snd point) (Some (interpolationParam src))
        in (case LabelGrid_values (extremes src) params 0 (data src) of
              Inl e \<Rightarrow> Inl e
            | Inr None \<Rightarrow> Inr Skipped
            | Inr (Some vals) \<Rightarrow>
                (case textFormatter src vals of
                   None \<Rightarrow> Inr Skipped
                 | Some label \<Rightarrow> if label = [] then Inr Skipped else Inr (Emitted (label, vals)))))"

text \<open>The \<open>data.map\<close> of \<open>LabelGrid.getDataAtCoordinate\<close>, from channel \<open>k\<close> on.\<close>

fun LabelGrid_query_values ::
  "LabelExtremes \<Rightarrow> InterpolationParams \<Rightarrow> nat \<Rightarrow> grid list \<Rightarrow> js_error + jsnum list" where
  "LabelGrid_query_values ext params k [] = Inr []"
| "LabelGrid_query_values ext params k (g # gs) =
     (let raw = interpolateGridValue g params
      in (case (if isNaN raw then Inr NaN else LabelGrid_dequantize ext k raw) of
            Inl e \<Rightarrow> Inl e
          | Inr val \<Rightarrow>
              (case LabelGrid_query_values ext params (Suc k) gs of
                 Inl e \<Rightarrow> Inl e
               | Inr vals \<Rightarrow> Inr (val # vals))))"

definition LabelGrid_getDataAtCoordinate ::
  "LabelGrid \<Rightarrow> jsnum \<times> jsnum \<Rightarrow> js_error + jsnum list" where
  "LabelGrid_getDataAtCoordinate src coordinate =
     (let lonlat = transform src (fst coordinate) (snd coordinate);
          params = coordinateCalculator src (fst lonlat) (snd lonlat) (Some (interpolationParam src))
      in LabelGrid_query_values (extremes src) params 0 (data src))"

section \<open>Specification of the interpolation parameters\<close>

text \<open>
  The algorithm of the calculator as the specification words it, on JavaScript numbers.
  Steps 1 and 2: the longitude moved onto one axis, the spans of the extent, the cell
  sizes with their default, and the two fractional cell coordinates.
\<close>

definition spec_cell_size :: "jsnum \<Rightarrow> jsnum \<Rightarrow> jsnum" where
  "spec_cell_size s n = (let c = fl_div s n in if c = Fin 0 \<or> c = NaN then Fin 1 else c)"

definition spec_cell :: "jsnum \<Rightarrow> jsnum \<Rightarrow> Extent \<Rightarrow> jsnum \<Rightarrow> jsnum \<Rightarrow> jsnum \<times> jsnum" where
  "spec_cell width height ext lon lat =
     (case ext of (minLon, minLat, maxLon, maxLat) \<Rightarrow>
      let wraps = js_lt maxLon minLon;
          lon_adj = (if wraps \<and> js_le lon maxLon then fl_add lon (Fin 360) else lon);
          spanLon = (if wraps then fl_add (fl_sub (Fin 180) minLon) (fl_add (Fin 180) maxLon)
                     else Math_abs (fl_sub maxLon minLon));
          spanLat = Math_abs (fl_sub maxLat minLat)
      in (fl_div (fl_sub lon_adj minLon) (spec_cell_size spanLon width),
          fl_div (fl_sub lat minLat) (spec_cell_size spanLat height)))"

text \<open>
  Steps 3 to 6, from the two cell coordinates: the neighbour columns \<open>floor xCell\<close> and
  \<open>floor xCell + 1\<close> and the neighbour rows \<open>height - 1 - floor yCell\<close> and
  \<open>height - 1 - ceil yCell\<close>, each clamped to the grid; the flat indices
  \<open>row * width + col\<close>; the offsets from the floors.
\<close>

definition spec_col :: "jsnum \<Rightarrow> jsnum \<Rightarrow> jsnum" where
  "spec_col width x = clamp x (Fin 0) (fl_sub width (Fin 1))"

definition spec_row :: "jsnum \<Rightarrow> jsnum \<Rightarrow> jsnum" where
  "spec_row height y = clamp (fl_sub (fl_sub height (Fin 1)) y) (Fin 0) (fl_sub height (Fin 1))"

definition spec_index :: "jsnum \<Rightarrow> jsnum \<Rightarrow> jsnum \<Rightarrow> jsnum" where
  "spec_index width row col = fl_add (fl_mul row width) col"

definition spec_params :: "jsnum \<Rightarrow> jsnum \<Rightarrow> Extent \<Rightarrow> jsnum \<Rightarrow> jsnum \<Rightarrow> InterpolationParams" where
  "spec_params width height ext lon lat =
     (case spec_cell width height ext lon lat of (xCell, yCell) \<Rightarrow>
      let col0 = spec_col width (Math_floor xCell);
          col1 = spec_col width (fl_add (Math_floor xCell) (Fin 1));
          rowFloor = spec_row height (Math_floor yCell);
          rowCeil = spec_row height (Math_ceil yCell)
      in \<lparr> i11 = spec_index width rowFloor col0,
           i12 = spec_index width rowCeil col0,
           i21 = spec_index width rowFloor col1,
           i22 = spec_index width rowCeil col1,
           rx = fl_sub xCell (Math_floor xCell),
           ry = fl_sub yCell (Math_floor yCell) \<rparr>)"

text \<open>
  The same steps 3 to 6 on integers, for a grid of \<open>w\<close> columns and \<open>h\<close> rows and finite
  cell coordinates \<open>xc\<close> and \<open>yc\<close>: the pair of neighbour columns, the pair of neighbour
  rows (upper, lower), and the parameter record. A coordinate left of the grid has both
  columns 0, one right of it both columns \<open>w - 1\<close>.
\<close>

definition clamp_int :: "int \<Rightarrow> int \<Rightarrow> int \<Rightarrow> int" where
  "clamp_int x lo hi = max lo (min hi x)"

definition neighbour_cols :: "int \<Rightarrow> real \<Rightarrow> int \<times> int" where
  "neighbour_cols w xc = (clamp_int \<lfloor>xc\<rfloor> 0 (w - 1), clamp_int (\<lfloor>xc\<rfloor> + 1) 0 (w - 1))"

definition neighbour_rows :: "int \<Rightarrow> real \<Rightarrow> int \<times> int" where
  "neighbour_rows h yc =
     (clamp_int (h - 1 - \<lceil>yc\<rceil>) 0 (h - 1), clamp_int (h - 1 - \<lfloor>yc\<rfloor>) 0 (h - 1))"

definition flat_index :: "int \<Rightarrow> int \<Rightarrow> int \<Rightarrow> jsnum" where
  "flat_index w row col = Fin (of_int (row * w + col))"

definition clamped_cells :: "int \<Rightarrow> int \<Rightarrow> real \<Rightarrow> real \<Rightarrow> InterpolationParams" where
  "clamped_cells w h xc yc =
     \<lparr> i11 = flat_index w (snd (neighbour_rows h yc)) (fst (neighbour_cols w xc)),
       i12 = flat_index w (fst (neighbour_rows h yc)) (fst (neighbour_cols w xc)),
       i21 = flat_index w (snd (neighbour_rows h yc)) (snd (neighbour_cols w xc)),
       i22 = flat_index w (fst (neighbour_rows h yc)) (snd (neighbour_cols w xc)),
       rx = fl64 (xc - of_int \<lfloor>xc\<rfloor>),
       ry = fl64 (yc - of_int \<lfloor>yc\<rfloor>) \<rparr>"

text \<open>
  The invariant of a parameter record: an index is an integer inside a buffer of \<open>n\<close>
  cells, an offset lies in \<open>[0, 1]\<close>.
\<close>

fun in_buffer :: "int \<Rightarrow> jsnum \<Rightarrow> bool" where
  "in_buffer n (Fin r) = (r = of_int \<lfloor>r\<rfloor> \<and> 0 \<le> r \<and> r \<le> of_int n - 1)"
| "in_buffer n _ = False"

fun in_unit_interval :: "jsnum \<Rightarrow> bool" where
  "in_unit_interval (Fin r) = (0 \<le> r \<and> r \<le> 1)"
| "in_unit_interval _ = False"

section \<open>Vocabulary of the properties\<close>



text \<open>One of the four neighbours that a parameter record names holds no data.\<close>

definition has_missing_neighbor :: "grid \<Rightarrow> InterpolationParams \<Rightarrow> bool" where
  "has_missing_neighbor g p =
     (isNaN (js_index g (i11 p)) \<or> isNaN (js_index g (i12 p))
      \<or> isNaN (js_index g (i21 p)) \<or> isNaN (js_index g (i22 p)))"

text \<open>The value ranges of a label source provide a pair for each of \<open>n\<close> channels.\<close>

fun ranges_cover :: "LabelExtremes \<Rightarrow> nat \<Rightarrow> bool" where
  "ranges_cover (SingleRange r) n = True"
| "ranges_cover (MultiRange rs) n = (rs = [] \<or> n \<le> length rs)"

text \<open>The parameter record of a coordinate \<open>(lon, lat)\<close> of the data projection.\<close>

definition params_at ::
  "('d, 'e, 'm) BaseGridSource_scheme \<Rightarrow> jsnum \<times> jsnum \<Rightarrow> InterpolationParams" where
  "params_at src lonlat = coordinateCalculator src (fst lonlat) (snd lonlat) None"

text \<open>
  The two interpolated bytes of a vector source at a coordinate of the data projection,
  and the vector record that the specification prescribes for components \<open>(u, v)\<close>.
\<close>

definition arrow_raw :: "ArrowGrid \<Rightarrow> jsnum \<times> jsnum \<Rightarrow> jsnum \<times> jsnum" where
  "arrow_raw src lonlat =
     (interpolateGridValue (fst (data src)) (params_at src lonlat),
      interpolateGridValue (snd (data src)) (params_at src lonlat))"

definition arrow_of :: "jsnum \<Rightarrow> jsnum \<Rightarrow> ArrowData" where
  "arrow_of uu vv =
     \<lparr>u = uu, v = vv, speed = Math_hypot uu vv, angle = Math_atan2 (js_neg vv) uu\<rparr>"

text \<open>
  A source over a grid of \<open>w\<close> columns and \<open>h\<close> rows, small enough for a flat index to be
  a binary64 integer; the cell coordinates of a coordinate of the data projection; a
  parameter record that names cells of that grid; value ranges of a label source that are
  finite and provide a pair for each of \<open>n\<close> channels, and the pair of channel \<open>k\<close>.
\<close>

fun is_finite :: "jsnum \<Rightarrow> bool" where
  "is_finite (Fin r) = True"
| "is_finite _ = False"






text \<open>
  The sample points of a tile of size \<open>tW \<times> tH\<close> for a divisor table and a spacing
  factor, through the divisor and the two grid steps that the constructor derives.
\<close>

definition tile_samplePoints ::
  "jsnum list \<Rightarrow> jsnum \<Rightarrow> jsnum \<Rightarrow> jsnum option \<Rightarrow> (jsnum \<times> jsnum) list option" where
  "tile_samplePoints divisors tW tH spacingFactor =
     (let divisor = select_divisor divisors spacingFactor
      in loadTile_samplePoints tW tH (gridStep tW divisor) (gridStep tH divisor))"

section \<open>Example sources\<close>

text \<open>
  Sources over a grid of two columns and two rows that covers the whole globe, with map
  and data both in \<open>EPSG:4326\<close>. The grid \<open>example_holed\<close> holds no data in its lower left
  cell.
\<close>

definition example_ol :: ol_proj where
  "example_ol = \<lparr>toLonLat = (\<lambda>p c. p), transform_ol = (\<lambda>p c d. p)\<rparr>"

definition example_options :: "'d \<Rightarrow> 'e \<Rightarrow> ('d, 'e) BaseGridOptions" where
  "example_options d e =
     \<lparr> opt_data = d, opt_extremes = e,
       opt_dataWidth = Fin 2, opt_dataHeight = Fin 2,
       opt_dataExtent = (Fin (- 180), Fin (- 90), Fin 180, Fin 90),
       opt_spacingFactor = None, opt_tileSize = None,
       opt_projection = Some ''EPSG:4326'', opt_dataProjection = None,
       opt_tileGrid = \<lparr>getOrigin = (\<lambda>z. (Fin (- 180), Fin 90)),
                        getResolution = (\<lambda>z. Fin (360 / 256))\<rparr> \<rparr>"

definition example_holed :: grid where
  "example_holed = [Fin 0, Fin 255, NaN, Fin 255]"

definition example_bytes :: grid where
  "example_bytes = [Fin 0, Fin 255, Fin 51, Fin 204]"

definition example_ColorGrid :: ColorGrid where
  "example_ColorGrid =
     ColorGrid_new example_ol (example_options example_holed (Some (Fin (- 50), Fin 50)))"

definition example_ArrowGrid :: ArrowGrid where
  "example_ArrowGrid =
     ArrowGrid_new example_ol
       (example_options (example_holed, example_bytes) (Some (Fin (- 40), Fin 40))) None"

definition example_LabelGrid :: LabelGrid where
  "example_LabelGrid =
     LabelGrid_new example_ol
       (example_options [example_bytes, example_holed] (SingleRange (Fin (- 50), Fin 50)))
       (\<lambda>vals. Some ''label'')"

text \<open>A vector source whose two components are zero everywhere.\<close>

definition example_zeros :: grid where
  "example_zeros = [Fin 0, Fin 0, Fin 0, Fin 0]"

definition example_calm :: "jsnum option \<Rightarrow> ArrowGrid" where
  "example_calm threshold =
     ArrowGrid_new example_ol
       (example_options (example_zeros, example_zeros) (Some (Fin 0, Fin 80))) threshold"





section \<open>Quantisation\<close>

text \<open>
  C6. For a value range whose two ends are the same number \<open>m\<close>, dequantising any
  finite byte gives \<open>m\<close> itself, a finite number: neither an infinity nor \<open>NaN\<close>.
\<close>

theorem dequantize_degenerate_range:
  "dequantize (Fin b) (Fin m, Fin m) = Fin m"
  by (simp add: dequantize_def js_sub_def)

text \<open>
  C5. On a range with \<open>lo < hi\<close>, quantisation is the affine map
  \<open>(x - lo) * 255 / (hi - lo)\<close>, and \<open>quantize\<close> and \<open>dequantize\<close> undo each other
  exactly on finite numbers (the numbers being exact here, the tolerance is zero). On the
  range \<open>[-50, 50]\<close>, \<open>quantize 0\<close> is \<open>127.5\<close> and \<open>dequantize 128\<close> is \<open>10/51\<close>, which is
  \<open>0.196\<close> to three decimals.
\<close>

theorem quantize_dequantize_inverse:
  assumes "lo < hi" and "lo \<le> x" and "x \<le> hi"
  shows "quantize (Fin x) (Fin lo, Fin hi) = Fin ((x - lo) * 255 / (hi - lo))
       \<and> dequantize (quantize (Fin x) (Fin lo, Fin hi)) (Fin lo, Fin hi) = Fin x
       \<and> quantize (dequantize (Fin x) (Fin lo, Fin hi)) (Fin lo, Fin hi) = Fin x
       \<and> quantize (Fin 0) (Fin (- 50), Fin 50) = Fin 127.5
       \<and> dequantize (Fin 128) (Fin (- 50), Fin 50) = Fin (10 / 51)
       \<and> \<bar>10 / 51 - 0.196\<bar> < (0.0005 :: real)"
  using assms by (simp add: quantize_def dequantize_def js_sub_def field_simps)

theorem quantize_dequantize_inverse_witness:
  "(- 50 :: real) < 50 \<and> (- 50 :: real) \<le> 0 \<and> (0 :: real) \<le> 50
   \<and> dequantize (quantize (Fin 0) (Fin (- 50), Fin 50)) (Fin (- 50), Fin 50) = Fin 0"
proof -
  have h: "(- 50 :: real) < 50" "(- 50 :: real) \<le> 0" "(0 :: real) \<le> 50"
    by simp_all
  from quantize_dequantize_inverse [OF h] h show ?thesis
    by blast
qed

section \<open>Extent containment\<close>

text \<open>
  C2. On finite numbers the predicate built by \<open>createCheckExtentFunc\<close> is, for an extent
  with \<open>minLon \<le> maxLon\<close>, the conjunction of the four range comparisons, and for a
  wrapping extent (\<open>maxLon < minLon\<close>) the latitude range check together with
  \<open>minLon \<le> lon \<or> lon \<le> maxLon\<close>. For the extent \<open>[170, -10, -170, 10]\<close> and a latitude in
  range, the longitudes \<open>175\<close> and \<open>-175\<close> are contained and \<open>0\<close> is not.
\<close>

theorem checkExtent_containment:
  "(minLon \<le> maxLon \<longrightarrow>
      createCheckExtentFunc (Fin minLon, Fin minLat, Fin maxLon, Fin maxLat) (Fin lon) (Fin lat)
        = (minLon \<le> lon \<and> lon \<le> maxLon \<and> minLat \<le> lat \<and> lat \<le> maxLat))
   \<and> (maxLon < minLon \<longrightarrow>
      createCheckExtentFunc (Fin minLon, Fin minLat, Fin maxLon, Fin maxLat) (Fin lon) (Fin lat)
        = ((minLat \<le> lat \<and> lat \<le> maxLat) \<and> (minLon \<le> lon \<or> lon \<le> maxLon)))
   \<and> (- 10 \<le> lat \<and> lat \<le> 10 \<longrightarrow>
        createCheckExtentFunc (Fin 170, Fin (- 10), Fin (- 170), Fin 10) (Fin 175) (Fin lat)
      \<and> createCheckExtentFunc (Fin 170, Fin (- 10), Fin (- 170), Fin 10) (Fin (- 175)) (Fin lat))
   \<and> \<not> createCheckExtentFunc (Fin 170, Fin (- 10), Fin (- 170), Fin 10) (Fin 0) (Fin lat)"
  by (auto simp add: createCheckExtentFunc_def js_ge_def)

theorem checkExtent_containment_witness:
  "createCheckExtentFunc (Fin (- 180), Fin (- 90), Fin 180, Fin 90) (Fin 10) (Fin 20)
   \<and> \<not> createCheckExtentFunc (Fin (- 180), Fin (- 90), Fin 180, Fin 90) (Fin 10) (Fin 91)
   \<and> createCheckExtentFunc (Fin 170, Fin (- 10), Fin (- 170), Fin 10) (Fin 175) (Fin 5)
   \<and> createCheckExtentFunc (Fin 170, Fin (- 10), Fin (- 170), Fin 10) (Fin (- 175)) (Fin 5)
   \<and> \<not> createCheckExtentFunc (Fin 170, Fin (- 10), Fin (- 170), Fin 10) (Fin 0) (Fin 5)
   \<and> \<not> createCheckExtentFunc (Fin 170, Fin (- 10), Fin (- 170), Fin 10) (Fin 175) (Fin 11)"
  using checkExtent_containment [of "- 180" 180 "- 90" 90 10 20]
        checkExtent_containment [of "- 180" 180 "- 90" 90 10 91]
        checkExtent_containment [of 170 "- 170" "- 10" 10 175 5]
        checkExtent_containment [of 170 "- 170" "- 10" 10 "- 175" 5]
        checkExtent_containment [of 170 "- 170" "- 10" 10 0 5]
        checkExtent_containment [of 170 "- 170" "- 10" 10 175 11]
  by simp

section \<open>Rounding to binary64\<close>

lemma rne_of_int [simp]: "rne (of_int k) = k"
  by (simp add: rne_def)

lemma rne_lower: "of_int k \<le> x \<Longrightarrow> k \<le> rne x"
proof -
  assume "of_int k \<le> x"
  then have "k \<le> \<lfloor>x\<rfloor>"
    by (simp add: le_floor_iff)
  then show ?thesis
    by (simp add: rne_def Let_def)
qed

lemma rne_upper: "x \<le> of_int k \<Longrightarrow> rne x \<le> k"
proof -
  assume x: "x \<le> of_int k"
  show ?thesis
  proof (cases "x = of_int \<lfloor>x\<rfloor>")
    case True
    then have "rne x = \<lfloor>x\<rfloor>"
      by (simp add: rne_def Let_def)
    moreover from x have "\<lfloor>x\<rfloor> \<le> k"
      by (simp add: floor_le_iff)
    ultimately show ?thesis
      by simp
  next
    case False
    then have "of_int \<lfloor>x\<rfloor> < x"
      using of_int_floor_le[of x] by linarith
    with x have "of_int \<lfloor>x\<rfloor> < (of_int k :: real)"
      by linarith
    then have "\<lfloor>x\<rfloor> + 1 \<le> k"
      by simp
    moreover have "rne x \<le> \<lfloor>x\<rfloor> + 1"
      by (simp add: rne_def Let_def)
    ultimately show ?thesis
      by linarith
  qed
qed

lemma rne_minus: "rne (- x) = - rne x"
proof (cases "x = of_int \<lfloor>x\<rfloor>")
  case True
  then obtain k where "x = of_int k"
    by blast
  then have "- x = of_int (- k)"
    by simp
  then show ?thesis
    using \<open>x = of_int k\<close> by (simp only: rne_of_int)
next
  case False
  then have fl: "\<lfloor>- x\<rfloor> = - \<lfloor>x\<rfloor> - 1"
    by (simp add: floor_minus ceiling_altdef)
  have d: "- x - of_int \<lfloor>- x\<rfloor> = 1 - (x - of_int \<lfloor>x\<rfloor>)"
    by (simp add: fl)
  from False have pos: "0 < x - of_int \<lfloor>x\<rfloor>"
    using of_int_floor_le[of x] by linarith
  show ?thesis
    unfolding rne_def Let_def d
    using pos by (auto simp add: fl)
qed

lemma pow2_less_D: "(2::real) powi a < 2 powi b \<Longrightarrow> a < b"
proof (rule ccontr)
  assume less: "(2::real) powi a < 2 powi b" and "\<not> a < b"
  then have "(2::real) powi b \<le> 2 powi a"
    by (intro power_int_increasing) simp_all
  with less show False
    by simp
qed

lemma expo_bracket:
  assumes "x \<noteq> 0"
  shows "\<bar>x\<bar> < 2 powi (expo x + 1)"
    and "- 1022 < expo x \<Longrightarrow> 2 powi expo x \<le> \<bar>x\<bar>"
    and "2 powi j \<le> \<bar>x\<bar> \<Longrightarrow> - 1022 \<le> j \<Longrightarrow> j \<le> expo x \<and> 2 powi expo x \<le> \<bar>x\<bar>"
    and "\<bar>x\<bar> < 2 powi j \<Longrightarrow> - 1021 \<le> j \<Longrightarrow> expo x < j"
    and "\<bar>x\<bar> \<le> 2 powi j \<Longrightarrow> - 1022 \<le> j \<Longrightarrow> expo x \<le> j"
proof -
  let ?E = "\<lfloor>log 2 \<bar>x\<bar>\<rfloor>"
  from assms have pos: "0 < \<bar>x\<bar>"
    by simp
  have "2 powr (of_int ?E) \<le> \<bar>x\<bar> \<and> \<bar>x\<bar> < 2 powr (of_int ?E + 1)"
    using floor_log_eq_powr_iff[OF pos, of 2 ?E] by simp
  then have lo: "2 powi ?E \<le> \<bar>x\<bar>" and hi: "\<bar>x\<bar> < 2 powi (?E + 1)"
    using powr_real_of_int'[of 2 ?E] powr_real_of_int'[of 2 "?E + 1"] by simp_all
  have "(2::real) powi (?E + 1) \<le> 2 powi (expo x + 1)"
    by (intro power_int_increasing) (simp_all add: expo_def)
  with hi show "\<bar>x\<bar> < 2 powi (expo x + 1)"
    by linarith
  show "2 powi expo x \<le> \<bar>x\<bar>" if "- 1022 < expo x"
    using that lo by (simp add: expo_def max_def split: if_splits)
  show "j \<le> expo x \<and> 2 powi expo x \<le> \<bar>x\<bar>" if "2 powi j \<le> \<bar>x\<bar>" and "- 1022 \<le> j"
  proof -
    from that(1) hi have "(2::real) powi j < 2 powi (?E + 1)"
      by linarith
    then have "j < ?E + 1"
      by (rule pow2_less_D)
    then have j: "j \<le> ?E"
      by simp
    with that(2) have "expo x = ?E"
      by (simp add: expo_def)
    with j lo show ?thesis
      by simp
  qed
  show "expo x < j" if "\<bar>x\<bar> < 2 powi j" and "- 1021 \<le> j"
  proof -
    from that(1) lo have "(2::real) powi ?E < 2 powi j"
      by linarith
    then have "?E < j"
      by (rule pow2_less_D)
    with that(2) show ?thesis
      by (simp add: expo_def)
  qed
  show "expo x \<le> j" if "\<bar>x\<bar> \<le> 2 powi j" and "- 1022 \<le> j"
  proof -
    from that(1) lo have "(2::real) powi ?E < 2 powi (j + 1)"
      using power_int_strict_increasing[of j "j + 1" "2::real"] by simp
    then have "?E < j + 1"
      by (rule pow2_less_D)
    with that(2) show ?thesis
      by (simp add: expo_def)
  qed
qed

lemma expo_minus [simp]: "expo (- x) = expo x"
  by (simp add: expo_def)

lemma pow2_split: "(2::real) powi a = 2 powi (a - b) * 2 powi b"
  using power_int_add[of "2::real" "a - b" b] by simp

lemma pow2_of_int: "0 \<le> a \<Longrightarrow> (2::real) powi a = of_int (2 ^ nat a)"
  by (simp add: power_int_nonneg_exp)

lemma fl64_not_NaN [simp]: "fl64 x \<noteq> NaN"
  by (simp add: fl64_def Let_def)

lemma fl64_zero [simp]: "fl64 0 = Fin 0"
  by (simp add: fl64_def)

lemma fl64_minus: "fl64 (- x) = js_neg (fl64 x)"
proof (cases "x = 0")
  case True
  then show ?thesis by simp
next
  case False
  let ?q = "(2::real) powi (expo x - 52)"
  have "of_int (rne (- x / ?q)) * ?q = - (of_int (rne (x / ?q)) * ?q)"
    using rne_minus[of "x / ?q"] by simp
  with False show ?thesis
    by (simp add: fl64_def Let_def)
qed

lemma fl64_upper:
  assumes "0 \<le> x" and "x \<le> 2 powi j" and "- 1022 \<le> j" and "j \<le> 1023"
  shows "\<exists>r. fl64 x = Fin r \<and> 0 \<le> r \<and> r \<le> 2 powi j"
proof (cases "x = 0")
  case True
  then show ?thesis by simp
next
  case False
  let ?e = "expo x"
  let ?q = "(2::real) powi (?e - 52)"
  let ?r = "of_int (rne (x / ?q)) * ?q"
  have q: "0 < ?q"
    by simp
  from assms have e: "?e \<le> j"
    using expo_bracket(5)[OF False, of j] by simp
  then have N: "(2::real) powi j = of_int (2 ^ nat (j - (?e - 52))) * ?q"
    using pow2_split[of j "?e - 52"] pow2_of_int[of "j - (?e - 52)"] by simp
  with assms(2) q have "x / ?q \<le> of_int (2 ^ nat (j - (?e - 52)))"
    by (simp add: pos_divide_le_eq)
  then have "rne (x / ?q) \<le> 2 ^ nat (j - (?e - 52))"
    by (rule rne_upper)
  then have "?r \<le> of_int (2 ^ nat (j - (?e - 52))) * ?q"
    using q by (intro mult_right_mono) simp_all
  with N have hi: "?r \<le> 2 powi j"
    by simp
  from assms(1) q have "of_int 0 \<le> x / ?q"
    by simp
  then have "0 \<le> rne (x / ?q)"
    by (rule rne_lower)
  with q have lo: "0 \<le> ?r"
    by simp
  have "(2::real) powi j < 2 powi 1024"
    using assms(4) by (intro power_int_strict_increasing) simp_all
  with hi have "?r < 2 powi 1024"
    by linarith
  moreover from lo have "\<not> ?r \<le> - (2 powi 1024)"
    using zero_less_power_int[of "2::real" 1024] by linarith
  ultimately have "fl64 x = Fin ?r"
    using False by (simp add: fl64_def Let_def)
  with lo hi show ?thesis
    by blast
qed

lemma fl64_lower:
  assumes "2 powi j \<le> x" and "- 1022 \<le> j"
  shows "js_le (Fin (2 powi j)) (fl64 x)"
proof -
  have pos: "0 < x"
    using assms(1) zero_less_power_int[of "2::real" j] by linarith
  then have nz: "x \<noteq> 0"
    by simp
  let ?e = "expo x"
  let ?q = "(2::real) powi (?e - 52)"
  let ?r = "of_int (rne (x / ?q)) * ?q"
  have q: "0 < ?q"
    by simp
  from assms pos have e: "j \<le> ?e" and lo: "2 powi ?e \<le> x"
    using expo_bracket(3)[OF nz, of j] by simp_all
  have N: "(2::real) powi ?e = of_int (2 ^ 52) * ?q"
    using pow2_split[of ?e "?e - 52"] by simp
  with lo q have "of_int (2 ^ 52) \<le> x / ?q"
    by (simp add: pos_le_divide_eq)
  then have "2 ^ 52 \<le> rne (x / ?q)"
    by (rule rne_lower)
  then have "of_int (2 ^ 52) * ?q \<le> ?r"
    using q by (intro mult_right_mono) simp_all
  with N have "2 powi ?e \<le> ?r"
    by simp
  moreover have "(2::real) powi j \<le> 2 powi ?e"
    using e by (intro power_int_increasing) simp_all
  ultimately have r: "2 powi j \<le> ?r"
    by linarith
  then have "\<not> ?r \<le> - (2 powi 1024)"
    using zero_less_power_int[of "2::real" j] zero_less_power_int[of "2::real" 1024] by linarith
  then have "fl64 x = PosInf \<or> fl64 x = Fin ?r"
    using nz by (simp add: fl64_def Let_def)
  with r show ?thesis
    by auto
qed

lemma fl64_overflow: "2 powi 1024 \<le> x \<Longrightarrow> fl64 x = PosInf"
proof -
  assume x: "2 powi 1024 \<le> x"
  then have "js_le (Fin (2 powi 1024)) (fl64 x)"
    by (rule fl64_lower) simp
  moreover have "fl64 x = Fin r \<Longrightarrow> r < 2 powi 1024" for r
    by (simp add: fl64_def Let_def split: if_splits)
  ultimately show ?thesis
    by (cases "fl64 x") force+
qed

lemma scaled_quotient:
  fixes p q n c :: real
  shows "q \<noteq> 0 \<Longrightarrow> p = n * q \<Longrightarrow> c * p / q = c * n"
  by simp

lemma fl64_dyadic:
  assumes "\<bar>k\<bar> < 2 ^ 53" and "- 1074 \<le> s"
      and "\<bar>of_int k * (2::real) powi s\<bar> < 2 powi 1024"
  shows "fl64 (of_int k * 2 powi s) = Fin (of_int k * 2 powi s)"
proof (cases "k = 0")
  case True
  then show ?thesis by simp
next
  case False
  let ?x = "of_int k * (2::real) powi s"
  let ?e = "expo ?x"
  let ?q = "(2::real) powi (?e - 52)"
  from False have nz: "?x \<noteq> 0"
    by simp
  from assms(1) have "\<bar>real_of_int k\<bar> < 2 ^ 53"
    by (metis of_int_abs of_int_less_numeral_power_cancel_iff)
  then have "\<bar>?x\<bar> < 2 ^ 53 * 2 powi s"
    by (simp add: abs_mult)
  also have "\<dots> = 2 powi (s + 53)"
    using power_int_add[of "2::real" 53 s] by (simp add: add.commute)
  finally have "?e < s + 53"
    using expo_bracket(4)[OF nz, of "s + 53"] assms(2) by simp
  then have "(2::real) powi s = of_int (2 ^ nat (s - (?e - 52))) * ?q"
    using pow2_split[of s "?e - 52"] pow2_of_int[of "s - (?e - 52)"] by simp
  then have "?x / ?q = of_int k * of_int (2 ^ nat (s - (?e - 52)))"
    by (intro scaled_quotient) simp_all
  then have quot: "?x / ?q = of_int (k * 2 ^ nat (s - (?e - 52)))"
    by simp
  then have "of_int (rne (?x / ?q)) = ?x / ?q"
    by (simp only: rne_of_int)
  then have r: "of_int (rne (?x / ?q)) * ?q = ?x"
    by simp
  from assms(3) have "\<not> 2 powi 1024 \<le> ?x" and "\<not> ?x \<le> - (2 powi 1024)"
    by linarith+
  with nz r show ?thesis
    by (simp add: fl64_def Let_def)
qed

lemma fl64_eval:
  assumes "2 powi e \<le> \<bar>x\<bar>" and "\<bar>x\<bar> < 2 powi (e + 1)" and "- 1022 \<le> e" and "e \<le> 1022"
  shows "fl64 x = Fin (of_int (rne (x / 2 powi (e - 52))) * 2 powi (e - 52))"
proof -
  have nz: "x \<noteq> 0"
  proof
    assume "x = 0"
    with assms(1) have "(2::real) powi e \<le> 0"
      by simp
    moreover have "0 < (2::real) powi e"
      by simp
    ultimately show False
      by linarith
  qed
  have ex: "expo x = e"
    using expo_bracket(3)[OF nz assms(1,3)] expo_bracket(4)[OF nz assms(2)] assms(3) by simp
  let ?q = "(2::real) powi (e - 52)"
  let ?r = "of_int (rne (x / ?q)) * ?q"
  have q: "0 < ?q"
    by simp
  have N: "(2::real) powi (e + 1) = of_int (2 ^ 53) * ?q"
    using pow2_split[of "e + 1" "e - 52"] by simp
  have "\<bar>x\<bar> / ?q \<le> of_int (2 ^ 53)"
    using assms(2) N q by (simp add: pos_divide_le_eq)
  then have "x / ?q \<le> of_int (2 ^ 53)" and "of_int (- (2 ^ 53)) \<le> x / ?q"
    using q by (simp_all add: abs_le_iff field_simps)
  then have "rne (x / ?q) \<le> 2 ^ 53" and "- (2 ^ 53) \<le> rne (x / ?q)"
    using rne_upper rne_lower by blast+
  then have "\<bar>real_of_int (rne (x / ?q))\<bar> \<le> 2 ^ 53"
    by (simp add: abs_le_iff)
  then have "\<bar>?r\<bar> \<le> 2 ^ 53 * ?q"
    using q by (simp add: abs_mult mult_right_mono)
  with N have "\<bar>?r\<bar> \<le> 2 powi (e + 1)"
    by simp
  moreover have "(2::real) powi (e + 1) < 2 powi 1024"
    using assms(4) by (intro power_int_strict_increasing) simp_all
  ultimately have "\<not> 2 powi 1024 \<le> ?r" and "\<not> ?r \<le> - (2 powi 1024)"
    by linarith+
  with nz ex show ?thesis
    by (simp add: fl64_def Let_def)
qed

lemma fl64_int: "\<bar>k\<bar> < 2 ^ 53 \<Longrightarrow> fl64 (of_int k) = Fin (of_int k)"
proof -
  assume k: "\<bar>k\<bar> < 2 ^ 53"
  then have "\<bar>real_of_int k\<bar> < 2 ^ 53"
    by (metis of_int_abs of_int_less_numeral_power_cancel_iff)
  then have "\<bar>of_int k * (2::real) powi 0\<bar> < 2 powi 1024"
    by simp
  with k show ?thesis
    using fl64_dyadic[of k 0] by simp
qed

lemma fl64_half: "\<bar>k\<bar> < 2 ^ 53 \<Longrightarrow> fl64 (of_int k / 2) = Fin (of_int k / 2)"
proof -
  assume k: "\<bar>k\<bar> < 2 ^ 53"
  then have "\<bar>real_of_int k\<bar> < 2 ^ 53"
    by (metis of_int_abs of_int_less_numeral_power_cancel_iff)
  then have "\<bar>of_int k * (2::real) powi (- 1)\<bar> < 2 powi 1024"
    by (simp add: power_int_minus)
  with k show ?thesis
    using fl64_dyadic[of k "- 1"] by (simp add: power_int_minus field_simps)
qed

lemma fl64_numeral [simp]:
  "(numeral n :: int) < 2 ^ 53 \<Longrightarrow> fl64 (numeral n) = Fin (numeral n)"
  "(numeral n :: int) < 2 ^ 53 \<Longrightarrow> fl64 (- numeral n) = Fin (- numeral n)"
  "fl64 1 = Fin 1"
  "(numeral n :: int) < 2 ^ 53 \<Longrightarrow> fl64 (numeral n / 2) = Fin (numeral n / 2)"
  "(numeral n :: int) < 2 ^ 53 \<Longrightarrow> fl64 (- (numeral n / 2)) = Fin (- (numeral n / 2))"
  "fl64 (1 / 2) = Fin (1 / 2)"
  using fl64_int[of "numeral n"] fl64_int[of "- numeral n"] fl64_int[of 1]
        fl64_half[of "numeral n"] fl64_half[of "- numeral n"] fl64_half[of 1]
  by simp_all

section \<open>Interpolation parameters\<close>

lemma sub_Fin: "js_sub (Fin a) (Fin b) = Fin (a - b)"
  by (simp add: js_sub_def)

lemma div_Fin: "b \<noteq> 0 \<Longrightarrow> js_div (Fin a) (Fin b) = Fin (a / b)"
  by simp

lemma js_add_commute: "js_add a b = js_add b a"
  by (cases a; cases b) simp_all

lemma js_truthy_iff: "js_truthy c = (\<not> (c = Fin 0 \<or> c = NaN))"
  by (cases c) simp_all

lemma cell_size_or: "js_or (fl_div s n) (Fin 1) = spec_cell_size s n"
  by (simp add: js_or_def spec_cell_size_def Let_def js_truthy_iff)

lemma spec_index_alt: "spec_index width row col = fl_add col (fl_mul row width)"
  by (simp add: spec_index_def fl_add_def js_add_commute)

lemma overwrite_all_fields:
  "scratch\<lparr>i11 := a, i12 := b, i21 := c, i22 := d, rx := e, ry := f\<rparr>
   = \<lparr>i11 = a, i12 = b, i21 = c, i22 = d, rx = e, ry = f\<rparr>"
  by (cases scratch) simp

lemma calculator_scratch:
  "createCoordinateCalculator width height extent lon lat (Some scratch)
   = createCoordinateCalculator width height extent lon lat None"
  by (simp add: createCoordinateCalculator_def Let_def overwrite_all_fields split: prod.split)

lemma calculator_spec:
  "createCoordinateCalculator width height ext lon lat out = spec_params width height ext lon lat"
proof -
  have "createCoordinateCalculator width height ext lon lat None
        = spec_params width height ext lon lat"
    unfolding createCoordinateCalculator_def spec_params_def spec_cell_def
    by (cases ext)
       (simp only: prod.case Let_def option.case cell_size_or spec_index_alt spec_col_def
          spec_row_def)
  then show ?thesis
    by (cases out) (simp_all only: calculator_scratch)
qed

lemma cells_spec:
  "cellCoordinates width height ext lon lat = spec_cell width height ext lon lat"
  unfolding cellCoordinates_def spec_cell_def
  by (cases ext) (simp only: prod.case Let_def cell_size_or)

lemma clamp_Fin:
  "clamp (Fin (of_int x)) (Fin 0) (Fin (of_int m)) = Fin (of_int (clamp_int x 0 m))"
  by (simp add: clamp_def clamp_int_def Math_max_def Math_min_def max_def min_def)

lemma clamp_above:
  assumes "js_le (Fin b) x" and "m \<le> b" and "0 \<le> m"
  shows "clamp x (Fin 0) (Fin m) = Fin m"
  using assms by (cases x) (simp_all add: clamp_def Math_max_def Math_min_def)

lemma clamp_below:
  assumes "js_le (Fin b) x" and "0 \<le> m" and "0 \<le> b"
  shows "clamp (js_neg x) (Fin 0) (Fin m) = Fin 0"
  using assms by (cases x) (simp_all add: clamp_def Math_max_def Math_min_def)

lemma clamp_fl64:
  assumes m: "0 \<le> m" "m < 2 ^ 53"
  shows "clamp (fl64 (of_int k)) (Fin 0) (Fin (of_int m)) = Fin (of_int (clamp_int k 0 m))"
proof -
  consider "\<bar>k\<bar> < 2 ^ 53" | "2 ^ 53 \<le> k" | "k \<le> - (2 ^ 53)"
    by linarith
  then show ?thesis
  proof cases
    case 1
    then show ?thesis
      by (simp only: fl64_int clamp_Fin)
  next
    case 2
    then have "(2::real) powi 53 \<le> of_int k"
      by (simp add: numeral_power_le_of_int_cancel_iff)
    then have "js_le (Fin (2 powi 53)) (fl64 (of_int k))"
      by (rule fl64_lower) simp
    moreover from m(2) have "m \<le> 2 ^ 53"
      by simp
    then have "real_of_int m \<le> real_of_int (2 ^ 53)"
      by (rule of_int_le_iff[THEN iffD2])
    then have "real_of_int m \<le> 2 powi 53"
      by simp
    moreover from m(1) have "0 \<le> real_of_int m"
      by simp
    ultimately have "clamp (fl64 (of_int k)) (Fin 0) (Fin (of_int m)) = Fin (of_int m)"
      by (rule clamp_above)
    moreover from 2 m have "clamp_int k 0 m = m"
      by (simp add: clamp_int_def)
    ultimately show ?thesis
      by simp
  next
    case 3
    then have "(2::real) powi 53 \<le> of_int (- k)"
      by (simp add: numeral_power_le_of_int_cancel_iff)
    then have "js_le (Fin (2 powi 53)) (fl64 (of_int (- k)))"
      by (rule fl64_lower) simp
    moreover from m(1) have "0 \<le> real_of_int m"
      by simp
    moreover have "0 \<le> (2::real) powi 53"
      by simp
    ultimately have "clamp (js_neg (fl64 (of_int (- k)))) (Fin 0) (Fin (of_int m)) = Fin 0"
      by (rule clamp_below)
    moreover have "js_neg (fl64 (of_int (- k))) = fl64 (of_int k)"
      using fl64_minus[of "of_int (- k)"] by simp
    moreover from 3 m have "clamp_int k 0 m = 0"
      by (simp add: clamp_int_def)
    ultimately show ?thesis
      by simp
  qed
qed

lemma fl_sub_one:
  assumes "1 \<le> n" and "n \<le> 2 ^ 53"
  shows "fl_sub (Fin (of_int n)) (Fin 1) = Fin (of_int (n - 1))"
proof -
  from assms have "\<bar>n - 1\<bar> < 2 ^ 53"
    by simp
  then have "fl64 (of_int (n - 1)) = Fin (of_int (n - 1))"
    by (rule fl64_int)
  then show ?thesis
    by (simp add: fl_sub_def sub_Fin)
qed

lemma spec_col_floor:
  assumes "1 \<le> w" and "w \<le> 2 ^ 53"
  shows "spec_col (Fin (of_int w)) (Math_floor (Fin xc)) = Fin (of_int (clamp_int \<lfloor>xc\<rfloor> 0 (w - 1)))"
    and "spec_col (Fin (of_int w)) (fl_add (Math_floor (Fin xc)) (Fin 1))
         = Fin (of_int (clamp_int (\<lfloor>xc\<rfloor> + 1) 0 (w - 1)))"
proof -
  from assms have m: "0 \<le> w - 1" "w - 1 < 2 ^ 53"
    by simp_all
  show "spec_col (Fin (of_int w)) (Math_floor (Fin xc)) = Fin (of_int (clamp_int \<lfloor>xc\<rfloor> 0 (w - 1)))"
    by (simp only: spec_col_def fl_sub_one[OF assms] Math_floor.simps clamp_Fin)
  have "fl_add (Math_floor (Fin xc)) (Fin 1) = fl64 (of_int (\<lfloor>xc\<rfloor> + 1))"
    by (simp add: fl_add_def)
  then show "spec_col (Fin (of_int w)) (fl_add (Math_floor (Fin xc)) (Fin 1))
         = Fin (of_int (clamp_int (\<lfloor>xc\<rfloor> + 1) 0 (w - 1)))"
    by (simp only: spec_col_def fl_sub_one[OF assms] clamp_fl64[OF m])
qed

lemma spec_row_int:
  assumes "1 \<le> h" and "h \<le> 2 ^ 53"
  shows "spec_row (Fin (of_int h)) (Fin (of_int k)) = Fin (of_int (clamp_int (h - 1 - k) 0 (h - 1)))"
proof -
  from assms have m: "0 \<le> h - 1" "h - 1 < 2 ^ 53"
    by simp_all
  have "fl_sub (Fin (of_int (h - 1))) (Fin (of_int k)) = fl64 (of_int (h - 1 - k))"
    by (simp add: fl_sub_def sub_Fin)
  then show ?thesis
    by (simp only: spec_row_def fl_sub_one[OF assms] clamp_fl64[OF m])
qed

lemma clamp_int_bounds: "0 \<le> m \<Longrightarrow> 0 \<le> clamp_int x 0 m \<and> clamp_int x 0 m \<le> m"
  by (simp add: clamp_int_def)

lemma flat_index_bounds:
  fixes c r w h :: int
  assumes "0 \<le> c" "c \<le> w - 1" "0 \<le> r" "r \<le> h - 1"
  shows "0 \<le> r * w" and "r * w \<le> w * h - 1" and "0 \<le> r * w + c" and "r * w + c \<le> w * h - 1"
proof -
  have w: "0 \<le> w" using assms by linarith
  have "r * w \<le> (h - 1) * w"
    using assms(4) w by (rule mult_right_mono)
  moreover have "(h - 1) * w = w * h - w"
    by (simp add: algebra_simps)
  moreover have "0 \<le> r * w"
    using assms(3) w by simp
  ultimately show "0 \<le> r * w" and "r * w \<le> w * h - 1" and "0 \<le> r * w + c"
      and "r * w + c \<le> w * h - 1"
    using assms(1,2) by linarith+
qed

lemma spec_index_int:
  assumes "0 \<le> c" "c \<le> w - 1" "0 \<le> r" "r \<le> h - 1" and "w * h \<le> 2 ^ 53"
  shows "spec_index (Fin (of_int w)) (Fin (of_int r)) (Fin (of_int c)) = flat_index w r c"
proof -
  note b = flat_index_bounds[OF assms(1-4)]
  from b(1,2) assms(5) have "\<bar>r * w\<bar> < 2 ^ 53"
    by linarith
  then have "fl64 (of_int (r * w)) = Fin (of_int (r * w))"
    by (rule fl64_int)
  then have p: "fl_mul (Fin (of_int r)) (Fin (of_int w)) = Fin (of_int (r * w))"
    by (simp add: fl_mul_def)
  from b(3,4) assms(5) have "\<bar>r * w + c\<bar> < 2 ^ 53"
    by linarith
  then have "fl64 (of_int (r * w + c)) = Fin (of_int (r * w + c))"
    by (rule fl64_int)
  then have "fl_add (Fin (of_int (r * w))) (Fin (of_int c)) = Fin (of_int (r * w + c))"
    by (simp add: fl_add_def)
  with p show ?thesis
    by (simp only: spec_index_def flat_index_def)
qed

lemma grid_sides:
  fixes w h :: int
  assumes "1 \<le> w" and "1 \<le> h" and "w * h \<le> 2 ^ 53"
  shows "w \<le> 2 ^ 53" and "h \<le> 2 ^ 53"
proof -
  have "w * 1 \<le> w * h"
    using assms(1,2) by (intro mult_left_mono) simp_all
  with assms(3) show "w \<le> 2 ^ 53"
    by simp
  have "1 * h \<le> w * h"
    using assms(1,2) by (intro mult_right_mono) simp_all
  with assms(3) show "h \<le> 2 ^ 53"
    by simp
qed

lemma spec_params_finite:
  assumes w: "1 \<le> w" and h: "1 \<le> h" and n: "w * h \<le> 2 ^ 53"
      and cell: "spec_cell (Fin (of_int w)) (Fin (of_int h)) ext lon lat = (Fin xc, Fin yc)"
  shows "spec_params (Fin (of_int w)) (Fin (of_int h)) ext lon lat = clamped_cells w h xc yc"
proof -
  note sides = grid_sides[OF w h n]
  from w h have m: "0 \<le> w - 1" "0 \<le> h - 1"
    by simp_all
  note cols = spec_col_floor[OF w sides(1), of xc]
  have rows: "spec_row (Fin (of_int h)) (Math_floor (Fin yc))
                = Fin (of_int (clamp_int (h - 1 - \<lfloor>yc\<rfloor>) 0 (h - 1)))"
             "spec_row (Fin (of_int h)) (Math_ceil (Fin yc))
                = Fin (of_int (clamp_int (h - 1 - \<lceil>yc\<rceil>) 0 (h - 1)))"
    by (simp_all only: Math_floor.simps Math_ceil.simps spec_row_int[OF h sides(2)])
  have idx: "spec_index (Fin (of_int w)) (Fin (of_int (clamp_int y 0 (h - 1))))
               (Fin (of_int (clamp_int x 0 (w - 1))))
             = flat_index w (clamp_int y 0 (h - 1)) (clamp_int x 0 (w - 1))" for x y
    using clamp_int_bounds[OF m(1), of x] clamp_int_bounds[OF m(2), of y] n
    by (intro spec_index_int) simp_all
  have off: "fl_sub (Fin x) (Math_floor (Fin x)) = fl64 (x - of_int \<lfloor>x\<rfloor>)" for x
    by (simp add: fl_sub_def sub_Fin)
  show ?thesis
    unfolding spec_params_def clamped_cells_def neighbour_cols_def neighbour_rows_def
    by (simp only: cell prod.case Let_def cols rows idx off fst_conv snd_conv)
qed

lemma calculator_neighbours:
  assumes "1 \<le> w" and "1 \<le> h" and "w * h \<le> 2 ^ 53"
      and "cellCoordinates (Fin (of_int w)) (Fin (of_int h)) ext lon lat = (Fin xc, Fin yc)"
  shows "createCoordinateCalculator (Fin (of_int w)) (Fin (of_int h)) ext lon lat out
         = clamped_cells w h xc yc"
proof -
  from assms(4) have "spec_cell (Fin (of_int w)) (Fin (of_int h)) ext lon lat = (Fin xc, Fin yc)"
    by (simp only: cells_spec)
  then show ?thesis
    by (simp only: calculator_spec spec_params_finite[OF assms(1-3)])
qed

lemma in_buffer_of_int: "in_buffer n (Fin (of_int k)) = (0 \<le> k \<and> k \<le> n - 1)"
proof -
  have "(real_of_int k \<le> real_of_int n - 1) = (k \<le> n - 1)"
    by linarith
  then show ?thesis
    by simp
qed

lemma in_buffer_flat:
  assumes "1 \<le> w" "1 \<le> h"
  shows "in_buffer (w * h) (flat_index w (clamp_int y 0 (h - 1)) (clamp_int x 0 (w - 1)))"
proof -
  have "0 \<le> w - 1" "0 \<le> h - 1" using assms by simp_all
  then have "0 \<le> clamp_int x 0 (w - 1)" "clamp_int x 0 (w - 1) \<le> w - 1"
        "0 \<le> clamp_int y 0 (h - 1)" "clamp_int y 0 (h - 1) \<le> h - 1"
    by (simp_all only: clamp_int_bounds)
  then have "0 \<le> clamp_int y 0 (h - 1) * w + clamp_int x 0 (w - 1)"
        "clamp_int y 0 (h - 1) * w + clamp_int x 0 (w - 1) \<le> w * h - 1"
    by (rule flat_index_bounds)+
  then show ?thesis
    by (simp only: flat_index_def in_buffer_of_int)
qed

lemma in_unit_fl64: "in_unit_interval (fl64 (x - of_int \<lfloor>x\<rfloor>))"
proof -
  have "0 \<le> x - of_int \<lfloor>x\<rfloor>" and "x - of_int \<lfloor>x\<rfloor> \<le> 2 powi 0"
    by (simp, simp, linarith)
  then obtain r where "fl64 (x - of_int \<lfloor>x\<rfloor>) = Fin r" and "0 \<le> r" and "r \<le> 2 powi 0"
    using fl64_upper[of "x - of_int \<lfloor>x\<rfloor>" 0] by auto
  then show ?thesis
    by simp
qed

lemma clamped_cells_invariant:
  assumes "1 \<le> w" and "1 \<le> h"
  shows "in_buffer (w * h) (i11 (clamped_cells w h xc yc))"
    and "in_buffer (w * h) (i12 (clamped_cells w h xc yc))"
    and "in_buffer (w * h) (i21 (clamped_cells w h xc yc))"
    and "in_buffer (w * h) (i22 (clamped_cells w h xc yc))"
    and "in_unit_interval (rx (clamped_cells w h xc yc))"
    and "in_unit_interval (ry (clamped_cells w h xc yc))"
  unfolding clamped_cells_def neighbour_cols_def neighbour_rows_def
  by (simp_all only: InterpolationParams.simps fst_conv snd_conv in_buffer_flat[OF assms]
        in_unit_fl64)

lemma clamp_int_low: "x \<le> 0 \<Longrightarrow> 0 \<le> m \<Longrightarrow> clamp_int x 0 m = 0"
  by (simp add: clamp_int_def)

lemma clamp_int_high: "m \<le> x \<Longrightarrow> 0 \<le> m \<Longrightarrow> clamp_int x 0 m = m"
  by (simp add: clamp_int_def)

lemma edge_columns:
  assumes "1 \<le> w"
  shows "xc < 0 \<Longrightarrow> neighbour_cols w xc = (0, 0)"
    and "of_int (w - 1) \<le> xc \<Longrightarrow> neighbour_cols w xc = (w - 1, w - 1)"
proof -
  from assms have m: "0 \<le> w - 1"
    by simp
  show "neighbour_cols w xc = (0, 0)" if "xc < 0"
  proof -
    from that have "\<lfloor>xc\<rfloor> < 0"
      by (simp add: floor_less_iff)
    then have "\<lfloor>xc\<rfloor> \<le> 0" and "\<lfloor>xc\<rfloor> + 1 \<le> 0"
      by linarith+
    then show ?thesis
      by (simp only: neighbour_cols_def clamp_int_low[OF _ m])
  qed
  show "neighbour_cols w xc = (w - 1, w - 1)" if "of_int (w - 1) \<le> xc"
  proof -
    from that have "w - 1 \<le> \<lfloor>xc\<rfloor>"
      by (simp only: le_floor_iff)
    then have "w - 1 \<le> \<lfloor>xc\<rfloor>" and "w - 1 \<le> \<lfloor>xc\<rfloor> + 1"
      by linarith+
    then show ?thesis
      by (simp only: neighbour_cols_def clamp_int_high[OF _ m])
  qed
qed

lemma edge_rows:
  assumes "1 \<le> h"
  shows "yc < 0 \<Longrightarrow> neighbour_rows h yc = (h - 1, h - 1)"
    and "of_int (h - 1) \<le> yc \<Longrightarrow> neighbour_rows h yc = (0, 0)"
proof -
  from assms have m: "0 \<le> h - 1"
    by simp
  show "neighbour_rows h yc = (h - 1, h - 1)" if "yc < 0"
  proof -
    from that have "\<lfloor>yc\<rfloor> < 0" and "\<lceil>yc\<rceil> \<le> 0"
      by (simp_all add: floor_less_iff ceiling_le_iff)
    then have "h - 1 \<le> h - 1 - \<lceil>yc\<rceil>" and "h - 1 \<le> h - 1 - \<lfloor>yc\<rfloor>"
      by linarith+
    then show ?thesis
      by (simp only: neighbour_rows_def clamp_int_high[OF _ m])
  qed
  show "neighbour_rows h yc = (0, 0)" if "of_int (h - 1) \<le> yc"
  proof -
    from that have "h - 1 \<le> \<lfloor>yc\<rfloor>"
      by (simp only: le_floor_iff)
    moreover have "\<lfloor>yc\<rfloor> \<le> \<lceil>yc\<rceil>"
      by (rule floor_le_ceiling)
    ultimately have "h - 1 - \<lceil>yc\<rceil> \<le> 0" and "h - 1 - \<lfloor>yc\<rfloor> \<le> 0"
      by linarith+
    then show ?thesis
      by (simp only: neighbour_rows_def clamp_int_low[OF _ m])
  qed
qed

lemma calculator_offsets:
  "rx (createCoordinateCalculator width height ext lon lat out)
   = fl_sub (fst (cellCoordinates width height ext lon lat))
       (Math_floor (fst (cellCoordinates width height ext lon lat)))"
  "ry (createCoordinateCalculator width height ext lon lat out)
   = fl_sub (snd (cellCoordinates width height ext lon lat))
       (Math_floor (snd (cellCoordinates width height ext lon lat)))"
  by (simp_all add: calculator_spec cells_spec spec_params_def Let_def split: prod.split)

lemma offset_finite: "in_unit_interval (fl_sub x (Math_floor x)) \<Longrightarrow> is_finite x"
  by (cases x) (simp_all add: fl_sub_def js_sub_def)

text \<open>
  C7. For a grid of at least one column and one row, of at most \<open>2 ^ 53\<close> cells, and a
  coordinate whose two cell coordinates \<open>xc\<close> and \<open>yc\<close> are finite, the record is the one
  of the clamped neighbours: the four indices are the flat indices \<open>row * width + col\<close>
  of the columns \<open>floor xc\<close> and \<open>floor xc + 1\<close> and of the rows \<open>height - 1 - ceil yc\<close>
  and \<open>height - 1 - floor yc\<close>, each clamped to the grid, so they are integers in
  \<open>[0, width * height - 1]\<close>, and both offsets lie in \<open>[0, 1]\<close>. Columns and rows are
  duplicated at the edges, never wrapped: left of the grid both columns are 0, from the
  last column on both are \<open>width - 1\<close>; below the grid both rows are \<open>height - 1\<close>, from
  the top row on both are 0. For every input, an offset lies in \<open>[0, 1]\<close> only if its
  cell coordinate is finite.
\<close>

theorem calculator_params_invariant:
  "(1 \<le> w \<and> 1 \<le> h \<and> w * h \<le> 2 ^ 53
      \<and> cellCoordinates (Fin (of_int w)) (Fin (of_int h)) ext lon lat = (Fin xc, Fin yc)
    \<longrightarrow> (let p = createCoordinateCalculator (Fin (of_int w)) (Fin (of_int h)) ext lon lat out
         in p = clamped_cells w h xc yc
          \<and> in_buffer (w * h) (i11 p) \<and> in_buffer (w * h) (i12 p)
          \<and> in_buffer (w * h) (i21 p) \<and> in_buffer (w * h) (i22 p)
          \<and> in_unit_interval (rx p) \<and> in_unit_interval (ry p)
          \<and> (xc < 0 \<longrightarrow> neighbour_cols w xc = (0, 0))
          \<and> (of_int (w - 1) \<le> xc \<longrightarrow> neighbour_cols w xc = (w - 1, w - 1))
          \<and> (yc < 0 \<longrightarrow> neighbour_rows h yc = (h - 1, h - 1))
          \<and> (of_int (h - 1) \<le> yc \<longrightarrow> neighbour_rows h yc = (0, 0))))
   \<and> (in_unit_interval (rx (createCoordinateCalculator width height ext' lon' lat' out'))
      \<longrightarrow> is_finite (fst (cellCoordinates width height ext' lon' lat')))
   \<and> (in_unit_interval (ry (createCoordinateCalculator width height ext' lon' lat' out'))
      \<longrightarrow> is_finite (snd (cellCoordinates width height ext' lon' lat')))"
proof (intro conjI impI)
  assume a: "1 \<le> w \<and> 1 \<le> h \<and> w * h \<le> 2 ^ 53
      \<and> cellCoordinates (Fin (of_int w)) (Fin (of_int h)) ext lon lat = (Fin xc, Fin yc)"
  then have w: "1 \<le> w" and h: "1 \<le> h" and n: "w * h \<le> 2 ^ 53"
    and cells: "cellCoordinates (Fin (of_int w)) (Fin (of_int h)) ext lon lat = (Fin xc, Fin yc)"
    by simp_all
  show "let p = createCoordinateCalculator (Fin (of_int w)) (Fin (of_int h)) ext lon lat out
         in p = clamped_cells w h xc yc
          \<and> in_buffer (w * h) (i11 p) \<and> in_buffer (w * h) (i12 p)
          \<and> in_buffer (w * h) (i21 p) \<and> in_buffer (w * h) (i22 p)
          \<and> in_unit_interval (rx p) \<and> in_unit_interval (ry p)
          \<and> (xc < 0 \<longrightarrow> neighbour_cols w xc = (0, 0))
          \<and> (of_int (w - 1) \<le> xc \<longrightarrow> neighbour_cols w xc = (w - 1, w - 1))
          \<and> (yc < 0 \<longrightarrow> neighbour_rows h yc = (h - 1, h - 1))
          \<and> (of_int (h - 1) \<le> yc \<longrightarrow> neighbour_rows h yc = (0, 0))"
    unfolding calculator_neighbours[OF w h n cells] Let_def
    using clamped_cells_invariant[OF w h, of xc yc] edge_columns[OF w, of xc] edge_rows[OF h, of yc]
    by blast
next
  assume "in_unit_interval (rx (createCoordinateCalculator width height ext' lon' lat' out'))"
  then show "is_finite (fst (cellCoordinates width height ext' lon' lat'))"
    by (simp only: calculator_offsets offset_finite)
next
  assume "in_unit_interval (ry (createCoordinateCalculator width height ext' lon' lat' out'))"
  then show "is_finite (snd (cellCoordinates width height ext' lon' lat'))"
    by (simp only: calculator_offsets offset_finite)
qed

lemma cells_beyond_corner:
  "cellCoordinates (Fin 4) (Fin 2) (Fin 170, Fin (- 10), Fin (- 170), Fin 10) (Fin 200) (Fin (- 40))
   = (Fin 6, Fin (- 3))"
  by (simp add: cellCoordinates_def Let_def fl_add_def fl_sub_def fl_div_def sub_Fin js_or_def)

lemma clamped_cells_beyond_corner:
  "clamped_cells 4 2 6 (- 3)
   = \<lparr>i11 = Fin 7, i12 = Fin 7, i21 = Fin 7, i22 = Fin 7, rx = Fin 0, ry = Fin 0\<rparr>"
  by (simp add: clamped_cells_def neighbour_cols_def neighbour_rows_def clamp_int_def
        flat_index_def)

theorem calculator_params_invariant_witness:
  "(1::int) \<le> 4 \<and> (1::int) \<le> 2 \<and> (4::int) * 2 \<le> 2 ^ 53
   \<and> cellCoordinates (Fin 4) (Fin 2) (Fin 170, Fin (- 10), Fin (- 170), Fin 10)
        (Fin 200) (Fin (- 40)) = (Fin 6, Fin (- 3))
   \<and> createCoordinateCalculator (Fin 4) (Fin 2) (Fin 170, Fin (- 10), Fin (- 170), Fin 10)
        (Fin 200) (Fin (- 40)) None
      = \<lparr>i11 = Fin 7, i12 = Fin 7, i21 = Fin 7, i22 = Fin 7, rx = Fin 0, ry = Fin 0\<rparr>
   \<and> in_buffer 8 (Fin 7) \<and> in_unit_interval (Fin 0)
   \<and> neighbour_cols 4 6 = (3, 3) \<and> neighbour_rows 2 (- 3) = (1, 1)"
  using calculator_params_invariant
          [where w = 4 and h = 2 and ext = "(Fin 170, Fin (- 10), Fin (- 170), Fin 10)"
             and lon = "Fin 200" and lat = "Fin (- 40)" and xc = 6 and yc = "- 3" and out = None,
           THEN conjunct1]
        cells_beyond_corner
  by (simp add: Let_def clamped_cells_beyond_corner)

text \<open>
  The invariant as the specification states it, for every finite coordinate, fails on
  the code. On a grid of two columns over the extent \<open>[0, 0, 1, 1]\<close> a cell is \<open>0.5\<close>
  wide; the cell coordinate of the finite longitude \<open>2 ^ 1023\<close> is \<open>2 ^ 1024\<close>, beyond
  the largest binary64 number, hence \<open>Infinity\<close>, and the offset
  \<open>Infinity - Infinity\<close> is \<open>NaN\<close>.
\<close>

lemma fl64_largest_power: "fl64 (2 ^ 1023) = Fin (2 ^ 1023)"
  using fl64_dyadic[of 1 1023] by simp

lemma fl64_beyond: "fl64 (2 ^ 1024) = PosInf"
  using fl64_overflow[of "2 ^ 1024"] by simp

lemma cells_overflow:
  "cellCoordinates (Fin 2) (Fin 1) (Fin 0, Fin 0, Fin 1, Fin 1) (Fin (2 ^ 1023)) (Fin 0)
   = (PosInf, Fin 0)"
proof -
  have "fl_sub (Fin (2 ^ 1023)) (Fin 0) = Fin (2 ^ 1023)"
    using fl64_largest_power by (simp add: fl_sub_def sub_Fin)
  moreover have "fl_div (Fin (2 ^ 1023)) (Fin (1 / 2)) = PosInf"
    using fl64_beyond by (simp add: fl_div_def)
  moreover have "js_or (fl_div (Math_abs (fl_sub (Fin 1) (Fin 0))) (Fin 2)) (Fin 1) = Fin (1 / 2)"
    by (simp add: fl_sub_def fl_div_def sub_Fin js_or_def)
  moreover have "js_or (fl_div (Math_abs (fl_sub (Fin 1) (Fin 0))) (Fin 1)) (Fin 1) = Fin 1"
    by (simp add: fl_sub_def fl_div_def sub_Fin js_or_def)
  moreover have "fl_div (fl_sub (Fin 0) (Fin 0)) (Fin 1) = Fin 0"
    by (simp add: fl_sub_def fl_div_def sub_Fin)
  ultimately show ?thesis
    unfolding cellCoordinates_def
    by (simp only: prod.case Let_def js_lt.simps js_le.simps if_False simp_thms)
       simp
qed

theorem calculator_params_counterexample:
  "(1::int) \<le> 2 \<and> (0::real) \<le> 1
   \<and> rx (createCoordinateCalculator (Fin 2) (Fin 1) (Fin 0, Fin 0, Fin 1, Fin 1)
           (Fin (2 ^ 1023)) (Fin 0) None) = NaN
   \<and> \<not> in_unit_interval
         (rx (createCoordinateCalculator (Fin 2) (Fin 1) (Fin 0, Fin 0, Fin 1, Fin 1)
                (Fin (2 ^ 1023)) (Fin 0) None))"
proof -
  have "spec_cell (Fin 2) (Fin 1) (Fin 0, Fin 0, Fin 1, Fin 1) (Fin (2 ^ 1023)) (Fin 0)
        = (PosInf, Fin 0)"
    using cells_overflow by (simp only: cells_spec)
  then have "rx (spec_params (Fin 2) (Fin 1) (Fin 0, Fin 0, Fin 1, Fin 1) (Fin (2 ^ 1023)) (Fin 0))
             = NaN"
    unfolding spec_params_def
    by (simp only: prod.case Let_def InterpolationParams.simps)
       (simp add: fl_sub_def js_sub_def)
  then show ?thesis
    by (simp add: calculator_spec)
qed

text \<open>
  C1. For every input the record computed by the calculator is the one the specified
  algorithm describes, each arithmetic step being the JavaScript operation: 360 is added
  to a longitude \<open>\<le> maxLon\<close> of a wrapping extent; the cell coordinates are
  \<open>(lon_adj - minLon) / cellWidth\<close> and \<open>(lat - minLat) / cellHeight\<close>, a cell size
  being the span over the grid size, or 1 when that quotient is zero or undefined; the
  columns are \<open>floor xCell\<close> and \<open>floor xCell + 1\<close> and the rows
  \<open>height - 1 - floor yCell\<close> and \<open>height - 1 - ceil yCell\<close>, all clamped; the offsets
  are the differences to the floors. On a grid of at most \<open>2 ^ 53\<close> cells and for finite
  cell coordinates the columns, rows and flat indices are the integers that these
  formulas give. The quotients are binary64 numbers: on 58 columns over the longitudes 0
  to 10 the cell width is the binary64 number nearest to \<open>10 / 58\<close>, the longitude 5 has
  the cell coordinate \<open>29 - 2 ^ -48\<close>, and its columns are 28 and 29.
\<close>

theorem coordinateCalculator_follows_spec:
  "createCoordinateCalculator width height ext lon lat out = spec_params width height ext lon lat
   \<and> cellCoordinates width height ext lon lat = spec_cell width height ext lon lat
   \<and> (1 \<le> w \<and> 1 \<le> h \<and> w * h \<le> 2 ^ 53
        \<and> spec_cell (Fin (of_int w)) (Fin (of_int h)) ext lon lat = (Fin xc, Fin yc)
      \<longrightarrow> spec_params (Fin (of_int w)) (Fin (of_int h)) ext lon lat = clamped_cells w h xc yc)"
  using calculator_spec cells_spec spec_params_finite by blast

lemma fl64_cell_width: "fl64 (5 / 29) = Fin (1552965388748447 / 9007199254740992)"
  using fl64_eval[of "- 3" "5 / 29"]
  by (simp add: rne_def Let_def)

lemma fl64_cell_coordinate:
  "fl64 (45035996273704960 / 1552965388748447) = Fin (8162774324609023 / 281474976710656)"
  using fl64_eval[of 4 "45035996273704960 / 1552965388748447"]
  by (simp add: rne_def Let_def)

lemma fl64_cell_offset:
  "fl64 (281474976710655 / 281474976710656) = Fin (281474976710655 / 281474976710656)"
  using fl64_dyadic[of 281474976710655 "- 48"]
  by (simp add: power_int_minus)

lemma spec_cell_rounded:
  "spec_cell (Fin 58) (Fin 1) (Fin 0, Fin 0, Fin 10, Fin 1) (Fin 5) (Fin 0)
   = (Fin (8162774324609023 / 281474976710656), Fin 0)"
proof -
  have "spec_cell_size (Fin 10) (Fin 58) = Fin (1552965388748447 / 9007199254740992)"
    by (simp add: spec_cell_size_def fl_div_def fl64_cell_width)
  moreover have "spec_cell_size (Fin 1) (Fin 1) = Fin 1"
    by (simp add: spec_cell_size_def fl_div_def)
  moreover have "fl_div (Fin 5) (Fin (1552965388748447 / 9007199254740992))
                 = Fin (8162774324609023 / 281474976710656)"
    by (simp add: fl_div_def fl64_cell_coordinate)
  ultimately show ?thesis
    unfolding spec_cell_def
    by (simp add: fl_sub_def sub_Fin fl_div_def)
qed

lemma clamped_cells_rounded:
  "clamped_cells 58 1 (8162774324609023 / 281474976710656) 0
   = \<lparr>i11 = Fin 28, i12 = Fin 28, i21 = Fin 29, i22 = Fin 29,
      rx = Fin (281474976710655 / 281474976710656), ry = Fin 0\<rparr>"
proof -
  have "\<lfloor>8162774324609023 / 281474976710656 :: real\<rfloor> = 28"
    by simp
  then show ?thesis
    by (simp add: clamped_cells_def neighbour_cols_def neighbour_rows_def clamp_int_def
          flat_index_def fl64_cell_offset)
qed

theorem coordinateCalculator_follows_spec_witness:
  "(1::int) \<le> 58 \<and> (1::int) \<le> 1 \<and> (58::int) * 1 \<le> 2 ^ 53
   \<and> cellCoordinates (Fin 58) (Fin 1) (Fin 0, Fin 0, Fin 10, Fin 1) (Fin 5) (Fin 0)
      = (Fin (8162774324609023 / 281474976710656), Fin 0)
   \<and> createCoordinateCalculator (Fin 58) (Fin 1) (Fin 0, Fin 0, Fin 10, Fin 1) (Fin 5) (Fin 0) None
      = \<lparr>i11 = Fin 28, i12 = Fin 28, i21 = Fin 29, i22 = Fin 29,
         rx = Fin (281474976710655 / 281474976710656), ry = Fin 0\<rparr>"
  using coordinateCalculator_follows_spec
          [of "Fin 58" "Fin 1" "(Fin 0, Fin 0, Fin 10, Fin 1)" "Fin 5" "Fin 0" None 58 1
              "8162774324609023 / 281474976710656" 0]
        spec_cell_rounded
  by (simp add: clamped_cells_rounded)

section \<open>Bilinear interpolation\<close>





section \<open>Missing data\<close>

lemma isNaN_iff: "isNaN x = (x = NaN)"
  by (cases x) simp_all

lemma js_mul_NaN [simp]: "js_mul x NaN = NaN"
  by (cases x) simp_all

lemma js_add_NaN [simp]: "js_add x NaN = NaN"
  by (cases x) simp_all

lemma interpolate_missing:
  "has_missing_neighbor g p \<Longrightarrow> interpolateGridValue g p = NaN"
  by (auto simp add: has_missing_neighbor_def isNaN_iff interpolateGridValue_def)

lemma params_at_scratch: "coordinateCalculator src lon lat (Some scratch) = params_at src (lon, lat)"
  by (simp add: params_at_def coordinateCalculator_def calculator_scratch)

lemma LabelGrid_dequantize_covered:
  "ranges_cover ext n \<Longrightarrow> k < n \<Longrightarrow> \<exists>val. LabelGrid_dequantize ext k raw = Inr val"
proof (cases ext)
  case (MultiRange rs)
  assume "ranges_cover ext n" "k < n"
  with MultiRange show ?thesis
    by (cases rs) auto
qed simp

lemma LabelGrid_values_missing:
  "ranges_cover ext (k + length gs) \<Longrightarrow> \<exists>g \<in> set gs. has_missing_neighbor g p
     \<Longrightarrow> LabelGrid_values ext p k gs = Inr None"
proof (induction gs arbitrary: k)
  case Nil
  then show ?case by simp
next
  case (Cons g gs)
  show ?case
  proof (cases "isNaN (interpolateGridValue g p)")
    case True
    then show ?thesis by simp
  next
    case False
    then have "\<not> has_missing_neighbor g p"
      using interpolate_missing by fastforce
    with Cons.prems(2) have rest: "\<exists>g \<in> set gs. has_missing_neighbor g p"
      by simp
    from Cons.prems(1) have "ranges_cover ext (Suc k + length gs)"
      by simp
    then have tail: "LabelGrid_values ext p (Suc k) gs = Inr None"
      using rest by (rule Cons.IH)
    from Cons.prems(1) obtain val
      where "LabelGrid_dequantize ext k (interpolateGridValue g p) = Inr val"
      using LabelGrid_dequantize_covered[of ext "k + length (g # gs)" k] by auto
    with False tail show ?thesis
      by simp
  qed
qed

lemma LabelGrid_query_values_missing:
  "ranges_cover ext (k + length gs)
     \<Longrightarrow> \<exists>vals. LabelGrid_query_values ext p k gs = Inr vals \<and> length vals = length gs
           \<and> (\<forall>j < length gs. has_missing_neighbor (gs ! j) p \<longrightarrow> isNaN (vals ! j))"
proof (induction gs arbitrary: k)
  case Nil
  then show ?case by simp
next
  case (Cons g gs)
  from Cons.prems have "ranges_cover ext (Suc k + length gs)"
    by simp
  then obtain vals where tail: "LabelGrid_query_values ext p (Suc k) gs = Inr vals"
      and len: "length vals = length gs"
      and nan: "\<forall>j < length gs. has_missing_neighbor (gs ! j) p \<longrightarrow> isNaN (vals ! j)"
    using Cons.IH by blast
  show ?case
  proof (cases "isNaN (interpolateGridValue g p)")
    case True
    with tail have "LabelGrid_query_values ext p k (g # gs) = Inr (NaN # vals)"
      by simp
    moreover have "\<forall>j < length (g # gs). has_missing_neighbor ((g # gs) ! j) p
        \<longrightarrow> isNaN ((NaN # vals) ! j)"
      using nan by (auto simp add: nth_Cons split: nat.split)
    ultimately show ?thesis
      using len by simp
  next
    case False
    then have here: "\<not> has_missing_neighbor g p"
      using interpolate_missing by fastforce
    from Cons.prems obtain val
      where deq: "LabelGrid_dequantize ext k (interpolateGridValue g p) = Inr val"
      using LabelGrid_dequantize_covered[of ext "k + length (g # gs)" k] by auto
    with False tail have "LabelGrid_query_values ext p k (g # gs) = Inr (val # vals)"
      by simp
    moreover have "\<forall>j < length (g # gs). has_missing_neighbor ((g # gs) ! j) p
        \<longrightarrow> isNaN ((val # vals) ! j)"
      using nan here by (auto simp add: nth_Cons split: nat.split)
    ultimately show ?thesis
      using len by simp
  qed
qed

text \<open>
  C3. When one of the four neighbours of a sample holds no data (is \<open>NaN\<close>), the
  interpolator returns \<open>NaN\<close>, and no renderer throws for it: the three tile renderers
  skip the sample, the raster and vector queries return \<open>null\<close>, and the label query
  returns \<open>NaN\<close> for every channel that misses a neighbour. For the label source the value
  ranges are taken to provide a pair for each channel.
\<close>

theorem missing_data_propagates:
  "(has_missing_neighbor g p \<longrightarrow> isNaN (interpolateGridValue g p))
   \<and> (has_missing_neighbor (data csrc) (params_at csrc pt)
        \<longrightarrow> ColorGrid_sample csrc pt = Skipped)
   \<and> (has_missing_neighbor (data csrc) (params_at csrc (transform csrc (fst c) (snd c)))
        \<longrightarrow> ColorGrid_getDataAtCoordinate csrc c = None)
   \<and> (has_missing_neighbor (fst (data asrc)) (params_at asrc pt)
        \<or> has_missing_neighbor (snd (data asrc)) (params_at asrc pt)
        \<longrightarrow> ArrowGrid_sample asrc pt = Inr Skipped)
   \<and> (has_missing_neighbor (fst (data asrc)) (params_at asrc (transform asrc (fst c) (snd c)))
        \<or> has_missing_neighbor (snd (data asrc)) (params_at asrc (transform asrc (fst c) (snd c)))
        \<longrightarrow> ArrowGrid_getVectorAtCoordinate asrc c = Inr None)
   \<and> (ranges_cover (extremes lsrc) (length (data lsrc))
        \<and> (\<exists>g \<in> set (data lsrc). has_missing_neighbor g (params_at lsrc pt))
        \<longrightarrow> LabelGrid_sample lsrc pt = Inr Skipped)
   \<and> (ranges_cover (extremes lsrc) (length (data lsrc))
        \<longrightarrow> (\<exists>vals. LabelGrid_getDataAtCoordinate lsrc c = Inr vals
               \<and> length vals = length (data lsrc)
               \<and> (\<forall>k < length (data lsrc).
                     has_missing_neighbor (data lsrc ! k)
                       (params_at lsrc (transform lsrc (fst c) (snd c)))
                     \<longrightarrow> isNaN (vals ! k))))"
proof (intro conjI impI)
  show "isNaN (interpolateGridValue g p)" if "has_missing_neighbor g p"
    using that by (simp add: interpolate_missing)
  show "ColorGrid_sample csrc pt = Skipped"
    if "has_missing_neighbor (data csrc) (params_at csrc pt)"
    using that by (simp add: ColorGrid_sample_def params_at_scratch interpolate_missing)
  show "ColorGrid_getDataAtCoordinate csrc c = None"
    if "has_missing_neighbor (data csrc) (params_at csrc (transform csrc (fst c) (snd c)))"
    using that
    by (simp add: ColorGrid_getDataAtCoordinate_def params_at_scratch interpolate_missing)
  show "ArrowGrid_sample asrc pt = Inr Skipped"
    if "has_missing_neighbor (fst (data asrc)) (params_at asrc pt)
        \<or> has_missing_neighbor (snd (data asrc)) (params_at asrc pt)"
    using that
    by (auto simp add: ArrowGrid_sample_def params_at_scratch interpolate_missing)
  show "ArrowGrid_getVectorAtCoordinate asrc c = Inr None"
    if "has_missing_neighbor (fst (data asrc)) (params_at asrc (transform asrc (fst c) (snd c)))
        \<or> has_missing_neighbor (snd (data asrc)) (params_at asrc (transform asrc (fst c) (snd c)))"
    using that
    by (auto simp add: ArrowGrid_getVectorAtCoordinate_def params_at_scratch interpolate_missing)
  show "LabelGrid_sample lsrc pt = Inr Skipped"
    if "ranges_cover (extremes lsrc) (length (data lsrc))
        \<and> (\<exists>g \<in> set (data lsrc). has_missing_neighbor g (params_at lsrc pt))"
    using that LabelGrid_values_missing[of "extremes lsrc" 0 "data lsrc" "params_at lsrc pt"]
    by (simp add: LabelGrid_sample_def params_at_scratch)
  show "\<exists>vals. LabelGrid_getDataAtCoordinate lsrc c = Inr vals
          \<and> length vals = length (data lsrc)
          \<and> (\<forall>k < length (data lsrc).
                has_missing_neighbor (data lsrc ! k)
                  (params_at lsrc (transform lsrc (fst c) (snd c)))
                \<longrightarrow> isNaN (vals ! k))"
    if "ranges_cover (extremes lsrc) (length (data lsrc))"
    using that LabelGrid_query_values_missing[of "extremes lsrc" 0 "data lsrc"
                 "params_at lsrc (transform lsrc (fst c) (snd c))"]
    by (simp add: LabelGrid_getDataAtCoordinate_def params_at_scratch)
qed

lemma globe_cells:
  "cellCoordinates (Fin 2) (Fin 2) (Fin (- 180), Fin (- 90), Fin 180, Fin 90)
     (Fin (- 90)) (Fin (- 45)) = (Fin (1 / 2), Fin (1 / 2))"
  "cellCoordinates (Fin 2) (Fin 2) (Fin (- 180), Fin (- 90), Fin 180, Fin 90)
     (Fin 90) (Fin 45) = (Fin (3 / 2), Fin (3 / 2))"
  "cellCoordinates (Fin 2) (Fin 2) (Fin (- 180), Fin (- 90), Fin 180, Fin 90)
     (Fin 270) (Fin 135) = (Fin (5 / 2), Fin (5 / 2))"
  by (simp_all add: cellCoordinates_def Let_def fl_add_def fl_sub_def fl_div_def sub_Fin
        js_or_def)

lemma globe_clamped_cells:
  "clamped_cells 2 2 (1 / 2) (1 / 2)
   = \<lparr>i11 = Fin 2, i12 = Fin 0, i21 = Fin 3, i22 = Fin 1, rx = Fin (1 / 2), ry = Fin (1 / 2)\<rparr>"
  "clamped_cells 2 2 (3 / 2) (3 / 2)
   = \<lparr>i11 = Fin 1, i12 = Fin 1, i21 = Fin 1, i22 = Fin 1, rx = Fin (1 / 2), ry = Fin (1 / 2)\<rparr>"
  "clamped_cells 2 2 (5 / 2) (5 / 2)
   = \<lparr>i11 = Fin 1, i12 = Fin 1, i21 = Fin 1, i22 = Fin 1, rx = Fin (1 / 2), ry = Fin (1 / 2)\<rparr>"
  by (simp_all add: clamped_cells_def neighbour_cols_def neighbour_rows_def clamp_int_def
        flat_index_def)

lemma globe_params:
  assumes "dataWidth src = Fin 2" and "dataHeight src = Fin 2"
      and "dataExtent src = (Fin (- 180), Fin (- 90), Fin 180, Fin 90)"
      and "cellCoordinates (Fin 2) (Fin 2) (Fin (- 180), Fin (- 90), Fin 180, Fin 90) lon lat
           = (Fin xc, Fin yc)"
  shows "params_at src (lon, lat) = clamped_cells 2 2 xc yc"
  using calculator_neighbours[of 2 2 "(Fin (- 180), Fin (- 90), Fin 180, Fin 90)" lon lat xc yc None]
        assms
  by (simp add: params_at_def coordinateCalculator_def)

lemma example_params:
  assumes "dataWidth src = Fin 2" and "dataHeight src = Fin 2"
      and "dataExtent src = (Fin (- 180), Fin (- 90), Fin 180, Fin 90)"
  shows "params_at src (Fin (- 90), Fin (- 45))
         = \<lparr>i11 = Fin 2, i12 = Fin 0, i21 = Fin 3, i22 = Fin 1, rx = Fin (1 / 2), ry = Fin (1 / 2)\<rparr>"
  by (simp only: globe_params[OF assms globe_cells(1)] globe_clamped_cells)

lemma example_ColorGrid_fields:
  "data example_ColorGrid = example_holed"
  "dataWidth example_ColorGrid = Fin 2" "dataHeight example_ColorGrid = Fin 2"
  "dataExtent example_ColorGrid = (Fin (- 180), Fin (- 90), Fin 180, Fin 90)"
  "transform example_ColorGrid x y = (x, y)"
  "extremes example_ColorGrid = Some (Fin (- 50), Fin 50)"
  by (simp_all add: example_ColorGrid_def ColorGrid_new_def BaseGridSource_new_def
        example_options_def createTransformFunc_def Let_def)

lemma example_ArrowGrid_fields:
  "data example_ArrowGrid = (example_holed, example_bytes)"
  "dataWidth example_ArrowGrid = Fin 2" "dataHeight example_ArrowGrid = Fin 2"
  "dataExtent example_ArrowGrid = (Fin (- 180), Fin (- 90), Fin 180, Fin 90)"
  "transform example_ArrowGrid x y = (x, y)"
  "extremes example_ArrowGrid = Some (Fin (- 40), Fin 40)"
  "speedThreshold example_ArrowGrid = Fin 0"
  by (simp_all add: example_ArrowGrid_def ArrowGrid_new_def BaseGridSource_new_def
        example_options_def createTransformFunc_def Let_def BaseGridSource.defs ArrowGrid.defs)

lemma example_LabelGrid_fields:
  "data example_LabelGrid = [example_bytes, example_holed]"
  "dataWidth example_LabelGrid = Fin 2" "dataHeight example_LabelGrid = Fin 2"
  "dataExtent example_LabelGrid = (Fin (- 180), Fin (- 90), Fin 180, Fin 90)"
  "transform example_LabelGrid x y = (x, y)"
  "extremes example_LabelGrid = SingleRange (Fin (- 50), Fin 50)"
  by (simp_all add: example_LabelGrid_def LabelGrid_new_def BaseGridSource_new_def
        example_options_def createTransformFunc_def Let_def BaseGridSource.defs LabelGrid.defs)

lemma example_holed_missing:
  "has_missing_neighbor example_holed
     \<lparr>i11 = Fin 2, i12 = Fin 0, i21 = Fin 3, i22 = Fin 1, rx = Fin (1 / 2), ry = Fin (1 / 2)\<rparr>"
  by (simp add: has_missing_neighbor_def example_holed_def)

theorem missing_data_propagates_witness:
  "has_missing_neighbor example_holed (params_at example_ColorGrid (Fin (- 90), Fin (- 45)))
   \<and> ColorGrid_sample example_ColorGrid (Fin (- 90), Fin (- 45)) = Skipped
   \<and> ColorGrid_getDataAtCoordinate example_ColorGrid (Fin (- 90), Fin (- 45)) = None
   \<and> ArrowGrid_sample example_ArrowGrid (Fin (- 90), Fin (- 45)) = Inr Skipped
   \<and> ArrowGrid_getVectorAtCoordinate example_ArrowGrid (Fin (- 90), Fin (- 45)) = Inr None
   \<and> LabelGrid_sample example_LabelGrid (Fin (- 90), Fin (- 45)) = Inr Skipped
   \<and> (\<exists>vals. LabelGrid_getDataAtCoordinate example_LabelGrid (Fin (- 90), Fin (- 45)) = Inr vals
          \<and> length vals = 2 \<and> isNaN (vals ! 1))"
proof -
  let ?pt = "(Fin (- 90), Fin (- 45))"
  note fields = example_params example_ColorGrid_fields example_ArrowGrid_fields
    example_LabelGrid_fields
  note inst = missing_data_propagates
          [where g = example_holed and p = "params_at example_ColorGrid ?pt"
             and csrc = example_ColorGrid and asrc = example_ArrowGrid
             and lsrc = example_LabelGrid and pt = ?pt and c = ?pt]
  note c2 = inst[THEN conjunct2]
  note c3 = c2[THEN conjunct2]
  note c4 = c3[THEN conjunct2]
  note c5 = c4[THEN conjunct2]
  note c6 = c5[THEN conjunct2]
  note c7 = c6[THEN conjunct2]
  have hole: "has_missing_neighbor example_holed (params_at example_ColorGrid ?pt)"
    using example_holed_missing by (simp add: fields)
  have color: "ColorGrid_sample example_ColorGrid ?pt = Skipped"
    using c2[THEN conjunct1] example_holed_missing by (simp add: fields)
  have color_query: "ColorGrid_getDataAtCoordinate example_ColorGrid ?pt = None"
    using c3[THEN conjunct1] example_holed_missing by (simp add: fields)
  have arrow: "ArrowGrid_sample example_ArrowGrid ?pt = Inr Skipped"
    using c4[THEN conjunct1] example_holed_missing by (simp add: fields)
  have arrow_query: "ArrowGrid_getVectorAtCoordinate example_ArrowGrid ?pt = Inr None"
    using c5[THEN conjunct1] example_holed_missing by (simp add: fields)
  have label: "LabelGrid_sample example_LabelGrid ?pt = Inr Skipped"
    using c6[THEN conjunct1] example_holed_missing by (simp add: fields)
  from c7 obtain vals
    where vals: "LabelGrid_getDataAtCoordinate example_LabelGrid ?pt = Inr vals"
      and len: "length vals = 2"
      and nan: "\<forall>k < 2. has_missing_neighbor ([example_bytes, example_holed] ! k)
                  (params_at example_LabelGrid ?pt) \<longrightarrow> isNaN (vals ! k)"
    by (auto simp add: example_LabelGrid_fields)
  from nan have "isNaN (vals ! 1)"
    using example_holed_missing by (simp add: fields)
  with vals len have "\<exists>vals. LabelGrid_getDataAtCoordinate example_LabelGrid ?pt = Inr vals
          \<and> length vals = 2 \<and> isNaN (vals ! 1)"
    by blast
  with hole color color_query arrow arrow_query label show ?thesis
    by blast
qed

section \<open>Vector renderer\<close>

lemma ArrowGrid_sample_drawn:
  assumes "checkExtent src (fst pt) (snd pt)"
      and "arrow_raw src pt = (uRaw, vRaw)" and "\<not> isNaN uRaw" and "\<not> isNaN vRaw"
      and "extremes src = Some r"
  shows "ArrowGrid_sample src pt
         = Inr (ArrowGrid_arrow (speedThreshold src) (dequantize uRaw r) (dequantize vRaw r))"
  using assms
  by (simp add: ArrowGrid_sample_def arrow_raw_def params_at_scratch dequantize_opt_def)

lemma ArrowGrid_arrow_calm:
  "ArrowGrid_arrow (Fin t) (Fin 0) (Fin 0)
   = (if 0 < t then Skipped
      else Emitted \<lparr>u = Fin 0, v = Fin 0, speed = Fin 0, angle = Fin 0\<rparr>)"
  by (simp add: ArrowGrid_arrow_def atan2_real_def Let_def)

text \<open>
  C9. At a sample inside the extent whose two interpolated bytes are numbers, the vector
  renderer dequantises them to \<open>(u, v)\<close>, computes \<open>speed = hypot (u, v)\<close> and
  \<open>angle = atan2 (- v, u)\<close>, and draws the arrow unless \<open>speed < speedThreshold\<close>. Where
  \<open>u\<close> and \<open>v\<close> are both zero the speed is zero: the sample is skipped under a positive
  threshold and drawn under the threshold zero. The point query returns the record
  \<open>{u, v, speed, angle}\<close> of the same formulas, or \<open>null\<close> when a byte is \<open>NaN\<close>. On finite
  components the speed is \<open>sqrt (u * u + v * v)\<close>.
\<close>

theorem arrow_speed_angle_threshold:
  "(checkExtent src (fst pt) (snd pt) \<and> arrow_raw src pt = (uRaw, vRaw)
      \<and> \<not> isNaN uRaw \<and> \<not> isNaN vRaw \<and> extremes src = Some r
      \<and> uu = dequantize uRaw r \<and> vv = dequantize vRaw r
    \<longrightarrow> ArrowGrid_sample src pt
          = Inr (if js_lt (Math_hypot uu vv) (speedThreshold src) then Skipped
                 else Emitted (arrow_of uu vv))
        \<and> (uu = Fin 0 \<and> vv = Fin 0 \<and> speedThreshold src = Fin t \<and> 0 < t
             \<longrightarrow> ArrowGrid_sample src pt = Inr Skipped)
        \<and> (uu = Fin 0 \<and> vv = Fin 0 \<and> speedThreshold src = Fin 0
             \<longrightarrow> ArrowGrid_sample src pt
                   = Inr (Emitted \<lparr>u = Fin 0, v = Fin 0, speed = Fin 0, angle = Fin 0\<rparr>)))
   \<and> (arrow_raw src (transform src (fst c) (snd c)) = (uQ, vQ) \<and> extremes src = Some r
        \<longrightarrow> ArrowGrid_getVectorAtCoordinate src c
              = Inr (if isNaN uQ \<or> isNaN vQ then None
                     else Some (arrow_of (dequantize uQ r) (dequantize vQ r))))
   \<and> arrow_of (Fin a) (Fin b)
       = \<lparr>u = Fin a, v = Fin b, speed = Fin (sqrt (a * a + b * b)),
          angle = Fin (atan2_real (- b) a)\<rparr>"
proof (intro conjI impI)
  assume h: "checkExtent src (fst pt) (snd pt) \<and> arrow_raw src pt = (uRaw, vRaw)
      \<and> \<not> isNaN uRaw \<and> \<not> isNaN vRaw \<and> extremes src = Some r
      \<and> uu = dequantize uRaw r \<and> vv = dequantize vRaw r"
  then have drawn: "ArrowGrid_sample src pt = Inr (ArrowGrid_arrow (speedThreshold src) uu vv)"
    by (simp add: ArrowGrid_sample_drawn)
  then show "ArrowGrid_sample src pt
          = Inr (if js_lt (Math_hypot uu vv) (speedThreshold src) then Skipped
                 else Emitted (arrow_of uu vv))"
    by (simp add: ArrowGrid_arrow_def arrow_of_def Let_def)
  show "ArrowGrid_sample src pt = Inr Skipped"
    if "uu = Fin 0 \<and> vv = Fin 0 \<and> speedThreshold src = Fin t \<and> 0 < t"
    using that drawn by (simp add: ArrowGrid_arrow_calm)
  show "ArrowGrid_sample src pt
          = Inr (Emitted \<lparr>u = Fin 0, v = Fin 0, speed = Fin 0, angle = Fin 0\<rparr>)"
    if "uu = Fin 0 \<and> vv = Fin 0 \<and> speedThreshold src = Fin 0"
    using that drawn by (simp add: ArrowGrid_arrow_calm)
next
  assume "arrow_raw src (transform src (fst c) (snd c)) = (uQ, vQ) \<and> extremes src = Some r"
  then show "ArrowGrid_getVectorAtCoordinate src c
              = Inr (if isNaN uQ \<or> isNaN vQ then None
                     else Some (arrow_of (dequantize uQ r) (dequantize vQ r)))"
    by (auto simp add: ArrowGrid_getVectorAtCoordinate_def arrow_raw_def params_at_scratch
          dequantize_opt_def arrow_of_def)
next
  show "arrow_of (Fin a) (Fin b)
       = \<lparr>u = Fin a, v = Fin b, speed = Fin (sqrt (a * a + b * b)),
          angle = Fin (atan2_real (- b) a)\<rparr>"
    by (simp add: arrow_of_def)
qed

lemma example_params_inner:
  assumes "dataWidth src = Fin 2" and "dataHeight src = Fin 2"
      and "dataExtent src = (Fin (- 180), Fin (- 90), Fin 180, Fin 90)"
  shows "params_at src (Fin 90, Fin 45)
         = \<lparr>i11 = Fin 1, i12 = Fin 1, i21 = Fin 1, i22 = Fin 1, rx = Fin (1 / 2), ry = Fin (1 / 2)\<rparr>"
  by (simp only: globe_params[OF assms globe_cells(2)] globe_clamped_cells)

lemma example_calm_fields:
  "data (example_calm th) = (example_zeros, example_zeros)"
  "dataWidth (example_calm th) = Fin 2" "dataHeight (example_calm th) = Fin 2"
  "dataExtent (example_calm th) = (Fin (- 180), Fin (- 90), Fin 180, Fin 90)"
  "transform (example_calm th) x y = (x, y)"
  "extremes (example_calm th) = Some (Fin 0, Fin 80)"
  "speedThreshold (example_calm None) = Fin 0"
  "speedThreshold (example_calm (Some (Fin 1))) = Fin 1"
  by (simp_all add: example_calm_def ArrowGrid_new_def BaseGridSource_new_def js_or_def
        example_options_def createTransformFunc_def Let_def BaseGridSource.defs ArrowGrid.defs)

lemma example_calm_raw: "arrow_raw (example_calm th) (Fin 90, Fin 45) = (Fin 0, Fin 0)"
  by (simp add: arrow_raw_def example_params_inner example_calm_fields example_zeros_def
        interpolateGridValue_def sub_Fin)

lemma arrow_of_zero:
  "arrow_of (Fin 0) (Fin 0) = \<lparr>u = Fin 0, v = Fin 0, speed = Fin 0, angle = Fin 0\<rparr>"
  by (simp add: arrow_of_def atan2_real_def)

lemma example_calm_inside: "checkExtent (example_calm th) (Fin 90) (Fin 45)"
  by (simp add: checkExtent_def example_calm_fields createCheckExtentFunc_def js_ge_def)

theorem arrow_speed_angle_threshold_witness:
  "ArrowGrid_sample (example_calm (Some (Fin 1))) (Fin 90, Fin 45) = Inr Skipped
   \<and> ArrowGrid_sample (example_calm None) (Fin 90, Fin 45)
       = Inr (Emitted \<lparr>u = Fin 0, v = Fin 0, speed = Fin 0, angle = Fin 0\<rparr>)
   \<and> ArrowGrid_getVectorAtCoordinate (example_calm None) (Fin 90, Fin 45)
       = Inr (Some \<lparr>u = Fin 0, v = Fin 0, speed = Fin 0, angle = Fin 0\<rparr>)"
proof -
  let ?pt = "(Fin 90, Fin 45)"
  have deq: "Fin 0 = dequantize (Fin 0) (Fin 0, Fin 80)"
    by (simp add: dequantize_def sub_Fin)
  note strict = arrow_speed_angle_threshold
      [where src = "example_calm (Some (Fin 1))" and pt = ?pt and c = ?pt
         and uRaw = "Fin 0" and vRaw = "Fin 0" and r = "(Fin 0, Fin 80)"
         and uu = "Fin 0" and vv = "Fin 0" and t = 1 and uQ = "Fin 0" and vQ = "Fin 0"]
  note calm = arrow_speed_angle_threshold
      [where src = "example_calm None" and pt = ?pt and c = ?pt
         and uRaw = "Fin 0" and vRaw = "Fin 0" and r = "(Fin 0, Fin 80)"
         and uu = "Fin 0" and vv = "Fin 0" and t = 1 and uQ = "Fin 0" and vQ = "Fin 0"]
  have "ArrowGrid_sample (example_calm (Some (Fin 1))) ?pt = Inr Skipped"
    using strict[THEN conjunct1] deq
    by (simp add: example_calm_fields example_calm_raw example_calm_inside arrow_of_zero)
  moreover have "ArrowGrid_sample (example_calm None) ?pt
       = Inr (Emitted \<lparr>u = Fin 0, v = Fin 0, speed = Fin 0, angle = Fin 0\<rparr>)"
    using calm[THEN conjunct1] deq
    by (simp add: example_calm_fields example_calm_raw example_calm_inside arrow_of_zero)
  moreover have "ArrowGrid_getVectorAtCoordinate (example_calm None) ?pt
       = Inr (Some \<lparr>u = Fin 0, v = Fin 0, speed = Fin 0, angle = Fin 0\<rparr>)"
    using calm[THEN conjunct2, THEN conjunct1] deq
    by (simp add: example_calm_fields example_calm_raw arrow_of_zero)
  ultimately show ?thesis
    by blast
qed

section \<open>Point queries\<close>






















section \<open>Spacing factor and sample points\<close>

lemma loop_offsets_closed:
  assumes s: "0 < s"
  shows "nat \<lceil>(b - a) / s\<rceil> = n
     \<Longrightarrow> loop_offsets (Fin a) (Fin b) (Fin s) = Some (map (\<lambda>k. Fin (a + real k * s)) [0..<n])"
proof (induction n arbitrary: a)
  case 0
  then have "\<lceil>(b - a) / s\<rceil> \<le> 0"
    by simp
  then have "(b - a) / s \<le> 0"
    by (simp add: ceiling_le_iff)
  with s have "\<not> a < b"
    by (simp add: field_simps)
  then show ?case
    by (subst loop_offsets.simps) simp
next
  case (Suc n)
  then have "0 < \<lceil>(b - a) / s\<rceil>"
    by linarith
  then have "0 < (b - a) / s"
    by (simp add: less_ceiling_iff)
  with s have lt: "a < b"
    by (simp add: field_simps)
  have "(b - (a + s)) / s = (b - a) / s - 1"
    using s by (simp add: field_simps)
  then have "nat \<lceil>(b - (a + s)) / s\<rceil> = n"
    using Suc.prems by simp
  then have rest: "loop_offsets (Fin (a + s)) (Fin b) (Fin s)
      = Some (map (\<lambda>k. Fin (a + s + real k * s)) [0..<n])"
    by (rule Suc.IH)
  have shift: "map (\<lambda>k. Fin (a + s + real k * s)) [0..<n]
      = map (\<lambda>k. Fin (a + real k * s)) (map Suc [0..<n])"
    by (simp add: algebra_simps)
  have "loop_offsets (Fin a) (Fin b) (Fin s)
      = Some (Fin a # map (\<lambda>k. Fin (a + s + real k * s)) [0..<n])"
    using lt rest by (subst loop_offsets.simps) simp
  also have "\<dots> = Some (map (\<lambda>k. Fin (a + real k * s)) (0 # map Suc [0..<n]))"
    by (simp only: shift list.map) simp
  also have "0 # map Suc [0..<n] = [0..<Suc n]"
    by (simp add: upt_conv_Cons map_Suc_upt del: upt_Suc)
  finally show ?case .
qed

lemma length_pairs:
  "length (concat (map (\<lambda>i. map (\<lambda>j. (i, j)) rows) cols)) = length cols * length rows"
  by (induction cols) simp_all

lemma samplePoints_count:
  assumes "0 < sx" and "0 < sy"
  shows "\<exists>ps. loadTile_samplePoints (Fin tW) (Fin tH) (Fin sx) (Fin sy) = Some ps
           \<and> length ps = nat \<lceil>tW / sx\<rceil> * nat \<lceil>tH / sy\<rceil>"
proof -
  let ?cols = "map (\<lambda>k. Fin (0 + real k * sx)) [0..<nat \<lceil>(tW - 0) / sx\<rceil>]"
  let ?rows = "map (\<lambda>k. Fin (0 + real k * sy)) [0..<nat \<lceil>(tH - 0) / sy\<rceil>]"
  have cols: "loop_offsets (Fin 0) (Fin tW) (Fin sx) = Some ?cols"
    using assms(1) by (rule loop_offsets_closed) simp
  have rows: "loop_offsets (Fin 0) (Fin tH) (Fin sy) = Some ?rows"
    using assms(2) by (rule loop_offsets_closed) simp
  show ?thesis
  proof (cases "?cols = []")
    case True
    then have "nat \<lceil>tW / sx\<rceil> = 0"
      by simp
    with True cols show ?thesis
      by (simp add: loadTile_samplePoints_def)
  next
    case False
    with cols rows
    have "loadTile_samplePoints (Fin tW) (Fin tH) (Fin sx) (Fin sy)
          = Some (concat (map (\<lambda>i. map (\<lambda>j. (i, j)) ?rows) ?cols))"
      by (simp add: loadTile_samplePoints_def)
    moreover have "length (concat (map (\<lambda>i. map (\<lambda>j. (i, j)) ?rows) ?cols))
          = length ?cols * length ?rows"
      by (rule length_pairs)
    moreover have "length ?cols = nat \<lceil>tW / sx\<rceil>" and "length ?rows = nat \<lceil>tH / sy\<rceil>"
      by simp_all
    ultimately show ?thesis
      by (intro exI conjI) (assumption, simp only:)
  qed
qed

lemma js_index_int:
  assumes "0 \<le> k" and "k < int (length g)"
  shows "js_index g (Fin (of_int k)) = g ! nat k"
proof -
  from assms have "nat k < length g"
    by linarith
  with assms(1) show ?thesis
    by simp
qed

lemma min_max_Fin:
  "Math_min (Fin (of_int a)) (Fin (of_int b)) = Fin (of_int (min a b))"
  "Math_max (Fin 0) (Fin (of_int b)) = Fin (of_int (max 0 b))"
  by (simp_all add: Math_max_def Math_min_def max_def min_def)

lemma select_divisor_int:
  assumes "T \<noteq> []"
  shows "select_divisor T (Some (Fin (of_int f)))
         = T ! nat (max 0 (min (int (length T) - 1) (f - 1)))"
proof -
  let ?k = "max 0 (min (int (length T) - 1) (f - 1))"
  have "Fin (real (length T) - 1) = Fin (of_int (int (length T) - 1))"
    and "js_sub (Fin (of_int f)) (Fin 1) = Fin (of_int (f - 1))"
    by (simp_all add: sub_Fin)
  then have "Math_max (Fin 0)
               (Math_min (Fin (real (length T) - 1)) (js_sub (Fin (of_int f)) (Fin 1)))
        = Fin (of_int ?k)"
    by (simp only: min_max_Fin)
  moreover from assms have "0 < length T"
    by simp
  then have "0 \<le> ?k" and "?k < int (length T)"
    by simp_all
  ultimately show ?thesis
    by (simp only: select_divisor_def Let_def option.case js_index_int)
qed

lemma gridStep_Fin:
  "d \<noteq> 0 \<Longrightarrow> gridStep (Fin t) (Fin d) = Fin (of_int \<lfloor>t / d + 1 / 2\<rfloor>)"
  by (simp add: gridStep_def)

lemma step_mono:
  fixes t d1 d2 :: real
  assumes "0 < d2" and "d2 \<le> d1" and "0 \<le> t"
  shows "\<lfloor>t / d1 + 1 / 2\<rfloor> \<le> \<lfloor>t / d2 + 1 / 2\<rfloor>"
proof -
  from assms have "t / d1 \<le> t / d2"
    by (simp add: frac_le)
  then show ?thesis
    by (intro floor_mono) simp
qed

lemma step_positive:
  fixes t d :: real
  assumes "0 < d" and "d \<le> 2 * t"
  shows "1 \<le> \<lfloor>t / d + 1 / 2\<rfloor>"
proof -
  from assms have "d / 2 / d \<le> t / d"
    by (intro divide_right_mono) simp_all
  with assms(1) have "1 / 2 \<le> t / d"
    by simp
  then have "of_int 1 \<le> t / d + 1 / 2"
    by linarith
  then show ?thesis
    by (simp only: le_floor_iff)
qed

lemma count_mono:
  fixes t :: real and s1 s2 :: int
  assumes "1 \<le> s1" and "s1 \<le> s2" and "0 \<le> t"
  shows "nat \<lceil>t / of_int s2\<rceil> \<le> nat \<lceil>t / of_int s1\<rceil>"
proof -
  from assms have "t / of_int s2 \<le> t / of_int s1"
    by (intro frac_le) simp_all
  then show ?thesis
    by (intro nat_mono ceiling_mono)
qed

lemma tile_samplePoints_count:
  assumes "select_divisor T f = Fin d" and "0 < d" and "d \<le> 2 * tW" and "d \<le> 2 * tH"
  shows "\<exists>ps. tile_samplePoints T (Fin tW) (Fin tH) f = Some ps
           \<and> length ps = nat \<lceil>tW / of_int \<lfloor>tW / d + 1 / 2\<rfloor>\<rceil>
                          * nat \<lceil>tH / of_int \<lfloor>tH / d + 1 / 2\<rfloor>\<rceil>"
proof -
  from assms have "1 \<le> \<lfloor>tW / d + 1 / 2\<rfloor>" and "1 \<le> \<lfloor>tH / d + 1 / 2\<rfloor>"
    by (simp_all only: step_positive)
  then have "0 < real_of_int \<lfloor>tW / d + 1 / 2\<rfloor>" and "0 < real_of_int \<lfloor>tH / d + 1 / 2\<rfloor>"
    by simp_all
  then show ?thesis
    using assms(1,2)
    by (simp add: tile_samplePoints_def gridStep_Fin samplePoints_count)
qed

lemma length_five:
  "length ColorGrid_divisors = 5" "length ArrowGrid_divisors = 5" "length LabelGrid_divisors = 5"
  by (simp_all add: ColorGrid_divisors_def ArrowGrid_divisors_def LabelGrid_divisors_def)

lemma table_entries:
  assumes "T = ColorGrid_divisors \<or> T = ArrowGrid_divisors \<or> T = LabelGrid_divisors"
      and "k < 5"
  shows "\<exists>d d0. T ! k = Fin d \<and> T ! 0 = Fin d0 \<and> 0 < d \<and> d \<le> d0"
proof -
  from assms(2) have "k = 0 \<or> k = 1 \<or> k = 2 \<or> k = 3 \<or> k = 4"
    by linarith
  with assms(1) show ?thesis
    by (auto simp add: ColorGrid_divisors_def ArrowGrid_divisors_def LabelGrid_divisors_def)
qed

lemma first_selection_most_samples:
  assumes T: "T = ColorGrid_divisors \<or> T = ArrowGrid_divisors \<or> T = LabelGrid_divisors"
      and d0: "T ! 0 = Fin d0" and tW: "d0 \<le> 2 * tW" and tH: "d0 \<le> 2 * tH"
  shows "\<exists>ps1 psf. tile_samplePoints T (Fin tW) (Fin tH) (Some (Fin 1)) = Some ps1
            \<and> tile_samplePoints T (Fin tW) (Fin tH) (Some (Fin (of_int f))) = Some psf
            \<and> length psf \<le> length ps1"
proof -
  from T have len: "length T = 5"
    using length_five by auto
  then have ne: "T \<noteq> []"
    by auto
  let ?k = "nat (max 0 (min (int (length T) - 1) (f - 1)))"
  have k: "?k < 5"
    using len by simp
  from table_entries[OF T k] d0 obtain d where d: "T ! ?k = Fin d" "0 < d" "d \<le> d0"
    by auto
  from d have pos0: "0 < d0"
    by simp
  with tW tH have nonneg: "0 \<le> tW" "0 \<le> tH"
    by simp_all
  have sel1: "select_divisor T (Some (Fin 1)) = Fin d0"
    using select_divisor_int[OF ne, of 1] d0 len by simp
  have self: "select_divisor T (Some (Fin (of_int f))) = Fin d"
    using select_divisor_int[OF ne, of f] d(1) by simp
  from tile_samplePoints_count[OF sel1 pos0 tW tH] obtain ps1
    where ps1: "tile_samplePoints T (Fin tW) (Fin tH) (Some (Fin 1)) = Some ps1"
      and n1: "length ps1 = nat \<lceil>tW / of_int \<lfloor>tW / d0 + 1 / 2\<rfloor>\<rceil>
                            * nat \<lceil>tH / of_int \<lfloor>tH / d0 + 1 / 2\<rfloor>\<rceil>"
    by blast
  from d tW tH have "d \<le> 2 * tW" "d \<le> 2 * tH"
    by simp_all
  from tile_samplePoints_count[OF self d(2) this] obtain psf
    where psf: "tile_samplePoints T (Fin tW) (Fin tH) (Some (Fin (of_int f))) = Some psf"
      and nf: "length psf = nat \<lceil>tW / of_int \<lfloor>tW / d + 1 / 2\<rfloor>\<rceil>
                            * nat \<lceil>tH / of_int \<lfloor>tH / d + 1 / 2\<rfloor>\<rceil>"
    by blast
  have "nat \<lceil>tW / of_int \<lfloor>tW / d + 1 / 2\<rfloor>\<rceil> \<le> nat \<lceil>tW / of_int \<lfloor>tW / d0 + 1 / 2\<rfloor>\<rceil>"
    using step_positive[OF pos0 tW] step_mono[OF d(2,3) nonneg(1)] nonneg(1)
    by (rule count_mono)
  moreover
  have "nat \<lceil>tH / of_int \<lfloor>tH / d + 1 / 2\<rfloor>\<rceil> \<le> nat \<lceil>tH / of_int \<lfloor>tH / d0 + 1 / 2\<rfloor>\<rceil>"
    using step_positive[OF pos0 tH] step_mono[OF d(2,3) nonneg(2)] nonneg(2)
    by (rule count_mono)
  ultimately have "length psf \<le> length ps1"
    unfolding n1 nf by (rule mult_le_mono)
  with ps1 psf show ?thesis
    by blast
qed

lemma floor_nat_half: "\<lfloor>real m + 1 / 2\<rfloor> = int m"
  by linarith

lemma one_sample_for_divisor_one:
  assumes "select_divisor T f = Fin 1" and "1 \<le> m" and "1 \<le> n"
  shows "\<exists>ps. tile_samplePoints T (Fin (real m)) (Fin (real n)) f = Some ps \<and> length ps = 1"
proof -
  from assms(2,3) have "1 \<le> 2 * real m" and "1 \<le> 2 * real n"
    by simp_all
  from tile_samplePoints_count[OF assms(1) _ this] obtain ps
    where "tile_samplePoints T (Fin (real m)) (Fin (real n)) f = Some ps"
      and "length ps = nat \<lceil>real m / of_int \<lfloor>real m / 1 + 1 / 2\<rfloor>\<rceil>
                        * nat \<lceil>real n / of_int \<lfloor>real n / 1 + 1 / 2\<rfloor>\<rceil>"
    by auto
  moreover have "real m / of_int \<lfloor>real m / 1 + 1 / 2\<rfloor> = 1"
    and "real n / of_int \<lfloor>real n / 1 + 1 / 2\<rfloor> = 1"
    using assms(2,3) by (simp_all add: floor_nat_half)
  ultimately show ?thesis
    by simp
qed

lemma unit_steps_cover_tile:
  "\<exists>ps. loadTile_samplePoints (Fin (real m)) (Fin (real n)) (Fin 1) (Fin 1) = Some ps
         \<and> length ps = m * n"
  using samplePoints_count[of 1 1 "real m" "real n"] by simp

lemma raster_finest_on_256:
  "\<exists>ps. tile_samplePoints ColorGrid_divisors (Fin 256) (Fin 256) (Some (Fin 1)) = Some ps
         \<and> length ps = 256 * 256"
proof -
  have "select_divisor ColorGrid_divisors (Some (Fin 1)) = Fin 256"
    using select_divisor_int[of ColorGrid_divisors 1] by (simp add: ColorGrid_divisors_def)
  from tile_samplePoints_count[OF this, of 256 256] show ?thesis
    by simp
qed

lemma constructed_samplePoints:
  "loadTile_samplePoints (tileW (BaseGridSource_new ol options T))
     (tileH (BaseGridSource_new ol options T))
     (gridStepX (BaseGridSource_new ol options T)) (gridStepY (BaseGridSource_new ol options T))
   = (case opt_tileSize options of
        None \<Rightarrow> tile_samplePoints T (Fin 256) (Fin 256) (opt_spacingFactor options)
      | Some (Square t) \<Rightarrow> tile_samplePoints T t t (opt_spacingFactor options)
      | Some (Rect a b) \<Rightarrow> tile_samplePoints T a b (opt_spacingFactor options))"
  by (simp add: BaseGridSource_new_def tile_samplePoints_def Let_def
        split: option.split TileSize.split)

text \<open>
  C4, as the code has it. The divisor table is \<open>[16, 8, 4, 2, 1]\<close> for the label and the
  vector renderer and \<open>[256, 128, 64, 32, 16]\<close> for the raster renderer. An integer spacing
  factor \<open>f\<close> selects entry \<open>f - 1\<close> of the table, clamped to \<open>0 .. 4\<close>: a factor of 5 or
  more selects the last entry, a factor of 1 or less the first, and no selection reads
  outside the table. The first entry is the largest divisor and gives the smallest step
  \<open>round (tile / divisor)\<close>: on a tile at least half that divisor wide and high, selection 1
  has at least as many sample points as any other selection. A tile of \<open>m \<times> n\<close> pixels has
  \<open>m * n\<close> sample points when both steps are 1, as the raster renderer has with its divisor
  256 on a tile of 256 pixels; when the divisor is 1 the step is the tile size and the tile
  has one sample point.
\<close>

theorem spacing_factor_selection:
  assumes "T = ColorGrid_divisors \<or> T = ArrowGrid_divisors \<or> T = LabelGrid_divisors"
  shows "LabelGrid_divisors = [Fin 16, Fin 8, Fin 4, Fin 2, Fin 1]
       \<and> ArrowGrid_divisors = [Fin 16, Fin 8, Fin 4, Fin 2, Fin 1]
       \<and> ColorGrid_divisors = [Fin 256, Fin 128, Fin 64, Fin 32, Fin 16]
       \<and> select_divisor T (Some (Fin (of_int f))) = T ! nat (max 0 (min 4 (f - 1)))
       \<and> (f \<le> 1 \<longrightarrow> select_divisor T (Some (Fin (of_int f))) = T ! 0)
       \<and> (5 \<le> f \<longrightarrow> select_divisor T (Some (Fin (of_int f))) = T ! 4)
       \<and> (T ! 0 = Fin d0 \<and> d0 \<le> 2 * tW \<and> d0 \<le> 2 * tH
            \<longrightarrow> (\<exists>ps1 psf. tile_samplePoints T (Fin tW) (Fin tH) (Some (Fin 1)) = Some ps1
                    \<and> tile_samplePoints T (Fin tW) (Fin tH) (Some (Fin (of_int f))) = Some psf
                    \<and> length psf \<le> length ps1))
       \<and> (\<exists>ps. loadTile_samplePoints (Fin (real m)) (Fin (real n)) (Fin 1) (Fin 1) = Some ps
              \<and> length ps = m * n)
       \<and> (\<exists>ps. tile_samplePoints ColorGrid_divisors (Fin 256) (Fin 256) (Some (Fin 1)) = Some ps
              \<and> length ps = 256 * 256)
       \<and> (select_divisor T (Some (Fin (of_int f))) = Fin 1 \<and> 1 \<le> m \<and> 1 \<le> n
            \<longrightarrow> (\<exists>ps. tile_samplePoints T (Fin (real m)) (Fin (real n)) (Some (Fin (of_int f)))
                         = Some ps
                       \<and> length ps = 1))"
proof -
  from assms have len: "length T = 5"
    using length_five by auto
  then have ne: "T \<noteq> []"
    by auto
  have sel: "select_divisor T (Some (Fin (of_int f))) = T ! nat (max 0 (min 4 (f - 1)))"
    using select_divisor_int[OF ne, of f] len by simp
  have low: "f \<le> 1 \<longrightarrow> select_divisor T (Some (Fin (of_int f))) = T ! 0"
    by (simp add: sel)
  have high: "5 \<le> f \<longrightarrow> select_divisor T (Some (Fin (of_int f))) = T ! 4"
    by (simp add: sel)
  have most: "T ! 0 = Fin d0 \<and> d0 \<le> 2 * tW \<and> d0 \<le> 2 * tH
            \<longrightarrow> (\<exists>ps1 psf. tile_samplePoints T (Fin tW) (Fin tH) (Some (Fin 1)) = Some ps1
                    \<and> tile_samplePoints T (Fin tW) (Fin tH) (Some (Fin (of_int f))) = Some psf
                    \<and> length psf \<le> length ps1)"
    using first_selection_most_samples[OF assms] by blast
  have one: "select_divisor T (Some (Fin (of_int f))) = Fin 1 \<and> 1 \<le> m \<and> 1 \<le> n
            \<longrightarrow> (\<exists>ps. tile_samplePoints T (Fin (real m)) (Fin (real n)) (Some (Fin (of_int f)))
                         = Some ps
                       \<and> length ps = 1)"
    using one_sample_for_divisor_one by blast
  have tables: "LabelGrid_divisors = [Fin 16, Fin 8, Fin 4, Fin 2, Fin 1]"
    "ArrowGrid_divisors = [Fin 16, Fin 8, Fin 4, Fin 2, Fin 1]"
    "ColorGrid_divisors = [Fin 256, Fin 128, Fin 64, Fin 32, Fin 16]"
    by (simp_all only: LabelGrid_divisors_def ArrowGrid_divisors_def ColorGrid_divisors_def)
  from tables sel low high most unit_steps_cover_tile[of m n] raster_finest_on_256 one
  show ?thesis
    by (intro conjI)
qed

theorem spacing_factor_selection_witness:
  "select_divisor LabelGrid_divisors (Some (Fin 7)) = Fin 1
   \<and> select_divisor LabelGrid_divisors (Some (Fin 1)) = Fin 16
   \<and> (\<exists>ps1 psf. tile_samplePoints LabelGrid_divisors (Fin 256) (Fin 256) (Some (Fin 1)) = Some ps1
          \<and> tile_samplePoints LabelGrid_divisors (Fin 256) (Fin 256) (Some (Fin 7)) = Some psf
          \<and> length psf \<le> length ps1)
   \<and> (\<exists>ps. tile_samplePoints LabelGrid_divisors (Fin 256) (Fin 256) (Some (Fin 7)) = Some ps
          \<and> length ps = 1)"
proof -
  note inst = spacing_factor_selection
      [where T = LabelGrid_divisors and f = 7 and ?d0.0 = 16 and tW = 256 and tH = 256
         and m = 256 and n = 256]
  note inst1 = spacing_factor_selection [where T = LabelGrid_divisors and f = 1]
  have t: "LabelGrid_divisors = ColorGrid_divisors \<or> LabelGrid_divisors = ArrowGrid_divisors
           \<or> LabelGrid_divisors = LabelGrid_divisors"
    by simp
  note c4 = inst[OF t, THEN conjunct2, THEN conjunct2, THEN conjunct2]
  note c7 = c4[THEN conjunct2, THEN conjunct2, THEN conjunct2]
  note c10 = c7[THEN conjunct2, THEN conjunct2, THEN conjunct2]
  have seven: "select_divisor LabelGrid_divisors (Some (Fin 7)) = Fin 1"
    using c4[THEN conjunct1] by (simp add: LabelGrid_divisors_def)
  have first: "select_divisor LabelGrid_divisors (Some (Fin 1)) = Fin 16"
    using inst1[OF t, THEN conjunct2, THEN conjunct2, THEN conjunct2, THEN conjunct1]
    by (simp add: LabelGrid_divisors_def)
  have most: "\<exists>ps1 psf.
          tile_samplePoints LabelGrid_divisors (Fin 256) (Fin 256) (Some (Fin 1)) = Some ps1
          \<and> tile_samplePoints LabelGrid_divisors (Fin 256) (Fin 256) (Some (Fin 7)) = Some psf
          \<and> length psf \<le> length ps1"
    using c7[THEN conjunct1] by (simp add: LabelGrid_divisors_def)
  have one: "\<exists>ps. tile_samplePoints LabelGrid_divisors (Fin 256) (Fin 256) (Some (Fin 7)) = Some ps
          \<and> length ps = 1"
    using c10 seven by simp
  from seven first most one show ?thesis
    by (intro conjI)
qed

text \<open>
  The claim as the specification states it fails on the code: the table of the raster
  renderer is not \<open>{16, 8, 4, 2, 1}\<close>, and with the divisor 1 (spacing factor 5 of the
  label renderer) a tile of \<open>256 \<times> 256\<close> pixels has one sample point, not \<open>256 * 256\<close>.
\<close>

theorem spacing_factor_counterexample:
  "ColorGrid_divisors \<noteq> [Fin 16, Fin 8, Fin 4, Fin 2, Fin 1]
   \<and> select_divisor LabelGrid_divisors (Some (Fin 5)) = Fin 1
   \<and> tile_samplePoints LabelGrid_divisors (Fin 256) (Fin 256) (Some (Fin 5))
       = Some [(Fin 0, Fin 0)]"
proof -
  have sel: "select_divisor LabelGrid_divisors (Some (Fin 5)) = Fin 1"
    using select_divisor_int[of LabelGrid_divisors 5] by (simp add: LabelGrid_divisors_def)
  have "loop_offsets (Fin 0) (Fin 256) (Fin 256) = Some [Fin 0]"
    using loop_offsets_closed[of 256 256 0 1] by simp
  then have "tile_samplePoints LabelGrid_divisors (Fin 256) (Fin 256) (Some (Fin 5))
       = Some [(Fin 0, Fin 0)]"
    by (simp add: tile_samplePoints_def sel gridStep_def loadTile_samplePoints_def)
  with sel show ?thesis
    by (simp add: ColorGrid_divisors_def)
qed

end
